theory Spec2Isabelle
  imports Main "HOL-Library.AList"
begin

section \<open>JavaScript values\<close>

text \<open>
  The gateway (\<^verbatim>\<open>src/index.ts\<close>, \<^verbatim>\<open>src/index-http.ts\<close>) handles decoded JSON bodies
  without any static typing (\<^verbatim>\<open>req.body\<close>, \<^verbatim>\<open>message.params\<close>, \<^verbatim>\<open>args as any\<close>), so
  the model works on JavaScript values. A number is kept as the text that
  \<^verbatim>\<open>String(n)\<close> gives for it: numbers are only copied, compared with \<^verbatim>\<open>undefined\<close>,
  tested for truthiness and interpolated into strings, never computed with; the only
  falsy number a JSON body can hold is zero, whose text is \<^verbatim>\<open>0\<close>. An object lists its
  own properties in the order \<^verbatim>\<open>Object.keys\<close> enumerates them.
\<close>

datatype jsval =
    JUndefined
  | JNull
  | JBool bool
  | JNum string
  | JStr string
  | JArr "jsval list"
  | JObj "(string \<times> jsval) list"

text \<open>
  Property read \<^verbatim>\<open>v.k\<close> for the keys the program reads (\<^verbatim>\<open>jsonrpc\<close>, \<^verbatim>\<open>id\<close>,
  \<^verbatim>\<open>method\<close>, \<^verbatim>\<open>params\<close>, \<^verbatim>\<open>name\<close>, \<^verbatim>\<open>arguments\<close>, \<^verbatim>\<open>id_casa\<close>, \<^verbatim>\<open>idioma\<close>): none of
  them is a property of a string, number, boolean or array, so the read is
  \<^verbatim>\<open>undefined\<close> there. Reading a property of \<^verbatim>\<open>undefined\<close> or \<^verbatim>\<open>null\<close> throws; every
  place where the program can meet that is written out where it happens.
\<close>

fun get_prop :: "jsval \<Rightarrow> string \<Rightarrow> jsval" where
  "get_prop (JObj kvs) k = (case map_of kvs k of Some v \<Rightarrow> v | None \<Rightarrow> JUndefined)"
| "get_prop v k = JUndefined"

definition nullish :: "jsval \<Rightarrow> bool" where
  "nullish v = (v = JUndefined \<or> v = JNull)"

fun truthy :: "jsval \<Rightarrow> bool" where
  "truthy JUndefined = False"
| "truthy JNull = False"
| "truthy (JBool b) = b"
| "truthy (JNum s) = (s \<noteq> ''0'')"
| "truthy (JStr s) = (s \<noteq> [])"
| "truthy (JArr xs) = True"
| "truthy (JObj kvs) = True"

text \<open>
  String conversion, as a template literal and \<^verbatim>\<open>String(v)\<close> perform it: \<open>None\<close> when
  it throws \<^verbatim>\<open>TypeError: Cannot convert object to primitive value\<close>. The conversion of
  an object looks its \<^verbatim>\<open>toString\<close> property up first. A decoded JSON object inherits
  \<^verbatim>\<open>Object.prototype.toString\<close>, which gives \<^verbatim>\<open>[object Object]\<close>, unless it has a key
  \<^verbatim>\<open>toString\<close> of its own: that value is no function, \<^verbatim>\<open>valueOf\<close> (own or inherited)
  gives no primitive either, and the conversion throws. An array is joined with
  commas, \<^verbatim>\<open>undefined\<close> and \<^verbatim>\<open>null\<close> elements as empty texts, and throws when the
  conversion of an element does.
\<close>

fun toString_js :: "jsval \<Rightarrow> string option" and join_js :: "jsval list \<Rightarrow> string option" where
  "toString_js JUndefined = Some ''undefined''"
| "toString_js JNull = Some ''null''"
| "toString_js (JBool b) = Some (if b then ''true'' else ''false'')"
| "toString_js (JNum s) = Some s"
| "toString_js (JStr s) = Some s"
| "toString_js (JArr xs) = join_js xs"
| "toString_js (JObj kvs) =
     (if ''toString'' \<in> set (map fst kvs) then None else Some ''[object Object]'')"
| "join_js [] = Some []"
| "join_js (x # xs) =
     (case (if x = JUndefined \<or> x = JNull then Some [] else toString_js x) of
        None \<Rightarrow> None
      | Some a \<Rightarrow>
          (case join_js xs of
             None \<Rightarrow> None
           | Some b \<Rightarrow> Some (a @ (if xs = [] then [] else '','' @ b))))"

definition digit_char :: "nat \<Rightarrow> char" where
  "digit_char d = ''0123456789'' ! d"

function show_nat :: "nat \<Rightarrow> string" where
  "show_nat n =
     (if n < 10 then [digit_char n] else show_nat (n div 10) @ [digit_char (n mod 10)])"
  by pat_completeness auto
termination
  by (relation "measure id") auto

text \<open>
  \<^verbatim>\<open>Object.keys(v)\<close> paired with \<^verbatim>\<open>v[key]\<close>, for a value that is neither \<^verbatim>\<open>undefined\<close>
  nor \<^verbatim>\<open>null\<close>: an array and a string enumerate their indices.
\<close>

fun own_entries :: "jsval \<Rightarrow> (string \<times> jsval) list" where
  "own_entries (JObj kvs) = kvs"
| "own_entries (JArr xs) = zip (map show_nat [0..<length xs]) xs"
| "own_entries (JStr s) = zip (map show_nat [0..<length s]) (map (\<lambda>c. JStr [c]) s)"
| "own_entries v = []"

text \<open>
  \<^verbatim>\<open>startsWith\<close> is a method of strings only: calling it on another truthy value is
  a \<^verbatim>\<open>TypeError\<close>.
\<close>

definition startsWith :: "string \<Rightarrow> string \<Rightarrow> bool" where
  "startsWith s p = (take (length p) s = p)"

section \<open>Errors\<close>

text \<open>
  A thrown value: the error's \<^verbatim>\<open>name\<close> and \<^verbatim>\<open>message\<close>. \<^verbatim>\<open>new Error(m)\<close> is
  \<open>Error_js m\<close>; the errors the engine raises are \<^verbatim>\<open>TypeError\<close>s, whose message
  texts are the engine's own (V8's wording is used).
\<close>

record js_error =
  ename :: string
  emessage :: string

definition Error_js :: "string \<Rightarrow> js_error" where
  "Error_js m = \<lparr>ename = ''Error'', emessage = m\<rparr>"

definition TypeError_js :: "string \<Rightarrow> js_error" where
  "TypeError_js m = \<lparr>ename = ''TypeError'', emessage = m\<rparr>"

text \<open>What a failing string conversion throws.\<close>

definition cannot_convert :: js_error where
  "cannot_convert = TypeError_js ''Cannot convert object to primitive value''"

text \<open>\<^verbatim>\<open>Error.prototype.toString\<close>.\<close>

definition error_toString :: "js_error \<Rightarrow> string" where
  "error_toString e =
     (if ename e = [] then emessage e
      else if emessage e = [] then ename e
      else ename e @ '': '' @ emessage e)"

section \<open>Configuration and the backend\<close>

text \<open>
  \<^verbatim>\<open>process.env\<close>, read once at start-up. \<^verbatim>\<open>process.env.X || 'd'\<close> takes the default
  when the variable is unset or empty.
\<close>

record env =
  env_API_BASE_URL :: "string option"
  env_API_KEY :: "string option"
  env_MCP_SERVER_NAME :: "string option"
  env_MCP_SERVER_VERSION :: "string option"

definition or_default :: "string option \<Rightarrow> string \<Rightarrow> string" where
  "or_default v d = (case v of None \<Rightarrow> d | Some s \<Rightarrow> if s = [] then d else s)"

text \<open>The two entry points differ in the default backend host only.\<close>

datatype entry_point = Index_ts | Index_http_ts

definition API_BASE_URL :: "entry_point \<Rightarrow> env \<Rightarrow> string" where
  "API_BASE_URL f e =
     or_default (env_API_BASE_URL e)
       (case f of Index_ts \<Rightarrow> ''https://www.la-palma24.net''
                | Index_http_ts \<Rightarrow> ''https://admin.la-palma24.net'')"

definition API_KEY :: "env \<Rightarrow> string" where
  "API_KEY e = or_default (env_API_KEY e) ''demo_key_12345''"

datatype verb = GET | POST

text \<open>
  What \<^verbatim>\<open>fetch\<close> is called with: the text given to \<^verbatim>\<open>new URL\<close> (the configured base,
  taken to be a well-formed absolute URL, followed by the endpoint), the query
  parameters appended to it, the method, the headers and, for a POST, the value whose
  \<^verbatim>\<open>JSON.stringify\<close> text is the body.
\<close>

record fetch_request =
  url :: string
  searchParams :: "(string \<times> string) list"
  fmethod :: verb
  headers :: "(string \<times> string) list"
  fbody :: "jsval option"

text \<open>
  What \<^verbatim>\<open>fetch\<close> answers: a response with its status, its status text and what
  \<^verbatim>\<open>response.json()\<close> gives (the parsed body, or the error it throws on a body that is
  not JSON), or a rejection (a network failure). The backend is outside the
  repository: it is a parameter of every function that reaches it.
\<close>

datatype fetch_outcome =
    Responded nat string "js_error + jsval"
  | Rejected js_error

type_synonym backend = "fetch_request \<Rightarrow> fetch_outcome"

text \<open>
  \<^verbatim>\<open>apiCall(endpoint, params = {}, method = 'GET')\<close>. The result is what the call
  returns (\<open>Inr\<close>) or throws (\<open>Inl\<close>), with the list of requests sent to the backend.
  \<^verbatim>\<open>Object.keys(null)\<close> and a \<^verbatim>\<open>String(params[key])\<close> that cannot convert throw before
  anything is sent.
\<close>

definition apiCall ::
  "entry_point \<Rightarrow> env \<Rightarrow> backend \<Rightarrow> string \<Rightarrow> jsval \<Rightarrow> verb
     \<Rightarrow> (js_error + jsval) \<times> fetch_request list" where
  "apiCall f e fetch endpoint params0 method =
     (let params = (if params0 = JUndefined then JObj [] else params0) in
      if method = GET \<and> params = JNull
      then (Inl (TypeError_js ''Cannot convert undefined or null to object''), [])
      else
        let query = (method = GET \<and> 0 < length (own_entries params)) in
        case (if query
              then those (map (\<lambda>(k, v). map_option (Pair k) (toString_js v))
                            (filter (\<lambda>(k, v). v \<noteq> JUndefined \<and> v \<noteq> JNull)
                               (own_entries params)))
              else Some []) of
          None \<Rightarrow> (Inl cannot_convert, [])
        | Some appended \<Rightarrow>
            let req = \<lparr>url = API_BASE_URL f e @ endpoint,
                       searchParams = appended,
                       fmethod = method,
                       headers = [(''X-API-Key'', API_KEY e),
                                  (''Content-Type'', ''application/json'')],
                       fbody = (if method = POST then Some params else None)\<rparr>
            in case fetch req of
                 Rejected err \<Rightarrow> (Inl err, [req])
               | Responded status statusText parsed \<Rightarrow>
                   if \<not> (200 \<le> status \<and> status \<le> 299)
                   then (Inl (Error_js
                                (''API Error: '' @ show_nat status @ '' '' @ statusText)),
                         [req])
                   else (parsed, [req]))"

section \<open>Tool dispatch\<close>

text \<open>
  The \<^verbatim>\<open>switch (name)\<close> over the six tools. The source has it four times, with the
  same cases in the same order (\<^verbatim>\<open>executeTool\<close> in \<^verbatim>\<open>index-http.ts\<close>; the
  \<^verbatim>\<open>CallToolRequestSchema\<close> handler, the \<^verbatim>\<open>tools/call\<close> branch of \<^verbatim>\<open>POST /message\<close> and
  \<^verbatim>\<open>POST /tools/:toolName\<close> in \<^verbatim>\<open>index.ts\<close>); the copies differ in what their
  \<^verbatim>\<open>catch\<close> does. \<^verbatim>\<open>case\<close> compares with \<^verbatim>\<open>===\<close>, so only a string matches. The
  destructuring \<^verbatim>\<open>const { id_casa, idioma = 'es' } = args\<close> throws on \<^verbatim>\<open>undefined\<close> and
  \<^verbatim>\<open>null\<close>, and takes the default for \<^verbatim>\<open>idioma\<close> when it is \<^verbatim>\<open>undefined\<close>. The two
  template literals (\<^verbatim>\<open>`/api/propiedad/${id_casa}`\<close> and the message of the default
  case) throw when the value cannot be converted to a string, before any call and
  before the \<^verbatim>\<open>Error\<close> is built.
\<close>

definition tool_switch ::
  "entry_point \<Rightarrow> env \<Rightarrow> backend \<Rightarrow> jsval \<Rightarrow> jsval
     \<Rightarrow> (js_error + jsval) \<times> fetch_request list" where
  "tool_switch f e fetch name args =
     (if name = JStr ''buscar_disponibilidad''
      then apiCall f e fetch ''/api/disponibilidad'' args POST
      else if name = JStr ''obtener_detalles_propiedad''
      then (if nullish args
            then (Inl (TypeError_js
                    (''Cannot destructure property 'id_casa' of 'args' as it is '' @
                     (if args = JNull then ''null'' else ''undefined'') @ ''.'')), [])
            else
              let id_casa = get_prop args ''id_casa'';
                  idioma = (if get_prop args ''idioma'' = JUndefined then JStr ''es''
                            else get_prop args ''idioma'')
              in case toString_js id_casa of
                   None \<Rightarrow> (Inl cannot_convert, [])
                 | Some shown \<Rightarrow>
                     apiCall f e fetch (''/api/propiedad/'' @ shown)
                       (JObj [(''idioma'', idioma)]) GET)
      else if name = JStr ''calcular_precio_estancia''
      then apiCall f e fetch ''/api/calcular-precio'' args POST
      else if name = JStr ''listar_propiedades''
      then apiCall f e fetch ''/api/propiedades'' args GET
      else if name = JStr ''listar_municipios''
      then apiCall f e fetch ''/api/municipios'' (JObj []) GET
      else if name = JStr ''listar_barrios''
      then apiCall f e fetch ''/api/barrios'' args GET
      else case toString_js name of
             None \<Rightarrow> (Inl cannot_convert, [])
           | Some shown \<Rightarrow> (Inl (Error_js (''Herramienta desconocida: '' @ shown)), []))"

text \<open>
  The Tool Result Envelope \<^verbatim>\<open>{content: [{type: 'text', text}], isError?}\<close>. The text
  is \<^verbatim>\<open>JSON.stringify(v, null, 2)\<close>: \<open>Pretty v\<close> stands for the pretty-printed JSON
  text of \<open>v\<close>. \<open>isError = None\<close> is the envelope without that key.
\<close>

datatype json_text = Pretty jsval

record content_item =
  ctype :: string
  ctext :: json_text

record envelope =
  content :: "content_item list"
  isError :: "bool option"

definition result_envelope :: "jsval \<Rightarrow> envelope" where
  "result_envelope r = \<lparr>content = [\<lparr>ctype = ''text'', ctext = Pretty r\<rparr>], isError = None\<rparr>"

definition error_envelope :: "js_error \<Rightarrow> envelope" where
  "error_envelope err =
     \<lparr>content = [\<lparr>ctype = ''text'',
                  ctext = Pretty (JObj [(''success'', JBool False),
                                       (''error'', JStr (emessage err)),
                                       (''details'', JStr (error_toString err))])\<rparr>],
      isError = Some True\<rparr>"

text \<open>
  \<^verbatim>\<open>executeTool(name, args)\<close> of \<^verbatim>\<open>index-http.ts\<close>: the switch inside \<^verbatim>\<open>try\<close>, every
  throw caught into an error envelope.
\<close>

definition executeTool ::
  "env \<Rightarrow> backend \<Rightarrow> jsval \<Rightarrow> jsval \<Rightarrow> envelope \<times> fetch_request list" where
  "executeTool e fetch name args =
     (case tool_switch Index_http_ts e fetch name args of
        (Inr r, calls) \<Rightarrow> (result_envelope r, calls)
      | (Inl err, calls) \<Rightarrow> (error_envelope err, calls))"

text \<open>
  The \<^verbatim>\<open>CallToolRequestSchema\<close> handler of \<^verbatim>\<open>index.ts\<close> (the stdio server): the same
  body as \<^verbatim>\<open>executeTool\<close>, on \<^verbatim>\<open>request.params\<close>.
\<close>

definition CallToolRequest_handler ::
  "env \<Rightarrow> backend \<Rightarrow> jsval \<Rightarrow> jsval \<Rightarrow> envelope \<times> fetch_request list" where
  "CallToolRequest_handler e fetch name args =
     (case tool_switch Index_ts e fetch name args of
        (Inr r, calls) \<Rightarrow> (result_envelope r, calls)
      | (Inl err, calls) \<Rightarrow> (error_envelope err, calls))"

section \<open>The Tool Catalog\<close>

text \<open>
  \<^verbatim>\<open>const tools: Tool[]\<close>, the same literal in both entry points. Letters outside
  ASCII are written as their UTF-8 bytes; no length or index of these texts is ever
  taken.
\<close>

record tool =
  name :: string
  description :: string
  inputSchema :: jsval

definition a_acute :: string where "a_acute = [CHR 0xC3, CHR 0xA1]"
definition e_acute :: string where "e_acute = [CHR 0xC3, CHR 0xA9]"
definition i_acute :: string where "i_acute = [CHR 0xC3, CHR 0xAD]"
definition o_acute :: string where "o_acute = [CHR 0xC3, CHR 0xB3]"
definition u_acute :: string where "u_acute = [CHR 0xC3, CHR 0xBA]"
definition U_acute :: string where "U_acute = [CHR 0xC3, CHR 0x9A]"
definition n_tilde :: string where "n_tilde = [CHR 0xC3, CHR 0xB1]"
definition backslash :: string where "backslash = [CHR 0x5C]"
definition dquote :: string where "dquote = [CHR 0x22]"

definition tools :: "tool list" where
  "tools =
    [\<lparr>name = ''buscar_disponibilidad'',
      description =
        ''Busca propiedades vacacionales disponibles en La Palma para unas fechas espec'' @
        i_acute @
        ''ficas. Permite filtrar por municipio, barrio y n'' @
        u_acute @
        ''mero de personas.'',
      inputSchema =
        JObj
         [(''type'', JStr ''object''),
          (''properties'', JObj
           [(''fecha_llegada'', JObj
             [(''type'', JStr ''string''),
              (''description'', JStr ''Fecha de llegada en formato YYYY-MM-DD (ej: 2024-06-15)''),
              (''pattern'', JStr (''^'' @ backslash @ ''d{4}-'' @ backslash @ ''d{2}-'' @ backslash @ ''d{2}$''))]),
            (''fecha_salida'', JObj
             [(''type'', JStr ''string''),
              (''description'', JStr ''Fecha de salida en formato YYYY-MM-DD (ej: 2024-06-22)''),
              (''pattern'', JStr (''^'' @ backslash @ ''d{4}-'' @ backslash @ ''d{2}-'' @ backslash @ ''d{2}$''))]),
            (''num_personas'', JObj
             [(''type'', JStr ''number''),
              (''description'', JStr (''N'' @ u_acute @ ''mero de hu'' @ e_acute @ ''spedes (default: 2)'')),
              (''minimum'', JNum ''1'')]),
            (''municipio'', JObj
             [(''type'', JStr ''string''),
              (''description'', JStr ''Filtrar por municipio (ej: Santa Cruz de La Palma, Los Llanos de Aridane)'')]),
            (''barrio'', JObj
             [(''type'', JStr ''string''),
              (''description'', JStr ''Filtrar por barrio/zona (ej: Centro, San Telmo, El Charco)'')])]),
          (''required'', JArr [JStr ''fecha_llegada'', JStr ''fecha_salida''])]\<rparr>,
     \<lparr>name = ''obtener_detalles_propiedad'',
      description =
        ''Obtiene informaci'' @
        o_acute @
        ''n completa de una propiedad espec'' @
        i_acute @
        ''fica: caracter'' @
        i_acute @
        ''sticas, amenidades, ubicaci'' @
        o_acute @
        ''n, precios, fotos, descripciones en el idioma solicitado.'',
      inputSchema =
        JObj
         [(''type'', JStr ''object''),
          (''properties'', JObj
           [(''id_casa'', JObj
             [(''type'', JStr ''string''),
              (''description'', JStr ''ID de la propiedad a consultar'')]),
            (''idioma'', JObj
             [(''type'', JStr ''string''),
              (''description'', JStr (''Idioma para descripciones: es (espa'' @ n_tilde @ ''ol), en (ingl'' @ e_acute @ ''s), de (alem'' @ a_acute @ ''n)'')),
              (''enum'', JArr [JStr ''es'', JStr ''en'', JStr ''de'']),
              (''default'', JStr ''es'')])]),
          (''required'', JArr [JStr ''id_casa''])]\<rparr>,
     \<lparr>name = ''calcular_precio_estancia'',
      description =
        ''Calcula el precio total de una estancia incluyendo tarifas por temporada, descuentos aplicables, n'' @
        u_acute @
        ''mero de noches y personas.'',
      inputSchema =
        JObj
         [(''type'', JStr ''object''),
          (''properties'', JObj
           [(''id_casa'', JObj
             [(''type'', JStr ''string''),
              (''description'', JStr ''ID de la propiedad'')]),
            (''fecha_llegada'', JObj
             [(''type'', JStr ''string''),
              (''description'', JStr ''Fecha de llegada en formato YYYY-MM-DD''),
              (''pattern'', JStr (''^'' @ backslash @ ''d{4}-'' @ backslash @ ''d{2}-'' @ backslash @ ''d{2}$''))]),
            (''fecha_salida'', JObj
             [(''type'', JStr ''string''),
              (''description'', JStr ''Fecha de salida en formato YYYY-MM-DD''),
              (''pattern'', JStr (''^'' @ backslash @ ''d{4}-'' @ backslash @ ''d{2}-'' @ backslash @ ''d{2}$''))]),
            (''num_personas'', JObj
             [(''type'', JStr ''number''),
              (''description'', JStr (''N'' @ u_acute @ ''mero de hu'' @ e_acute @ ''spedes (default: 2)'')),
              (''minimum'', JNum ''1'')])]),
          (''required'', JArr [JStr ''id_casa'', JStr ''fecha_llegada'', JStr ''fecha_salida''])]\<rparr>,
     \<lparr>name = ''listar_propiedades'',
      description =
        ''Lista todas las propiedades vacacionales disponibles con filtros opcionales por ubicaci'' @
        o_acute @
        ''n, capacidad y caracter'' @
        i_acute @
        ''sticas. Incluye paginaci'' @
        o_acute @
        ''n.'',
      inputSchema =
        JObj
         [(''type'', JStr ''object''),
          (''properties'', JObj
           [(''municipio'', JObj
             [(''type'', JStr ''string''),
              (''description'', JStr ''Filtrar por municipio'')]),
            (''barrio'', JObj
             [(''type'', JStr ''string''),
              (''description'', JStr ''Filtrar por barrio/zona'')]),
            (''dormitorios'', JObj
             [(''type'', JStr ''number''),
              (''description'', JStr (''N'' @ u_acute @ ''mero de dormitorios'')),
              (''minimum'', JNum ''1'')]),
            (''personas_max'', JObj
             [(''type'', JStr ''number''),
              (''description'', JStr (''Capacidad m'' @ i_acute @ ''nima de personas'')),
              (''minimum'', JNum ''1'')]),
            (''limit'', JObj
             [(''type'', JStr ''number''),
              (''description'', JStr (''N'' @ u_acute @ ''mero m'' @ a_acute @ ''ximo de resultados (default: 50)'')),
              (''minimum'', JNum ''1''),
              (''maximum'', JNum ''100''),
              (''default'', JNum ''50'')]),
            (''offset'', JObj
             [(''type'', JStr ''number''),
              (''description'', JStr (''Offset para paginaci'' @ o_acute @ ''n (default: 0)'')),
              (''minimum'', JNum ''0''),
              (''default'', JNum ''0'')])])]\<rparr>,
     \<lparr>name = ''listar_municipios'',
      description =
        ''Obtiene la lista completa de municipios disponibles en La Palma donde hay propiedades. '' @
        U_acute @
        ''til para saber qu'' @
        e_acute @
        '' ubicaciones se pueden filtrar.'',
      inputSchema =
        JObj [(''type'', JStr ''object''), (''properties'', JObj [])]\<rparr>,
     \<lparr>name = ''listar_barrios'',
      description =
        ''Obtiene la lista de barrios/zonas disponibles, opcionalmente filtrados por municipio. '' @
        U_acute @
        ''til para b'' @
        u_acute @
        ''squedas m'' @
        a_acute @
        ''s espec'' @
        i_acute @
        ''ficas de ubicaci'' @
        o_acute @
        ''n.'',
      inputSchema =
        JObj
         [(''type'', JStr ''object''),
          (''properties'', JObj
           [(''municipio'', JObj
             [(''type'', JStr ''string''),
              (''description'', JStr ''Filtrar barrios por municipio (ej: Santa Cruz de La Palma)'')])])]\<rparr>]"

section \<open>JSON-RPC responses\<close>

text \<open>
  A response \<^verbatim>\<open>{jsonrpc: '2.0', id, result}\<close> or \<^verbatim>\<open>{jsonrpc: '2.0', id, error: {code,
  message, data?}}\<close>. The \<^verbatim>\<open>id\<close> is \<^verbatim>\<open>message.id\<close> as read: \<open>JUndefined\<close> when the
  message has none (\<^verbatim>\<open>JSON.stringify\<close> then leaves the key out).
\<close>

datatype rpc_result =
    Initialize_result string jsval string string
  | Tools_result "tool list"
  | Call_result envelope
  | Prompts_result "jsval list"
  | Resources_result "jsval list"

datatype rpc_outcome =
    Result rpc_result
  | Rpc_error int string "string option"

record rpc_response =
  rid :: jsval
  outcome :: rpc_outcome

text \<open>
  The \<^verbatim>\<open>initialize\<close> result: \<^verbatim>\<open>protocolVersion\<close>, \<^verbatim>\<open>capabilities\<close>, and the name and
  version of \<^verbatim>\<open>serverInfo\<close>.
\<close>

definition initialize_result :: "env \<Rightarrow> rpc_result" where
  "initialize_result e =
     Initialize_result ''2024-11-05'' (JObj [(''tools'', JObj [])])
       (or_default (env_MCP_SERVER_NAME e) ''lapalma24-propiedades'')
       (or_default (env_MCP_SERVER_VERSION e) ''1.0.0'')"

text \<open>
  \<^verbatim>\<open>message.method && message.method.startsWith(p)\<close> as a condition: false on a falsy
  method, a \<^verbatim>\<open>TypeError\<close> on a truthy value that is not a string.
\<close>

definition method_startsWith :: "jsval \<Rightarrow> string \<Rightarrow> js_error + bool" where
  "method_startsWith m p =
     (if \<not> truthy m then Inr False
      else case m of
             JStr s \<Rightarrow> Inr (startsWith s p)
           | _ \<Rightarrow> Inl (TypeError_js ''message.method.startsWith is not a function''))"

text \<open>
  \<^verbatim>\<open>const { name, arguments: args } = message.params\<close> throws on \<^verbatim>\<open>undefined\<close> and
  \<^verbatim>\<open>null\<close>.
\<close>

definition destructure_params :: "jsval \<Rightarrow> js_error + (jsval \<times> jsval)" where
  "destructure_params params =
     (if nullish params
      then Inl (TypeError_js
             (''Cannot destructure property 'name' of 'message.params' as it is '' @
              (if params = JNull then ''null'' else ''undefined'') @ ''.''))
      else Inr (get_prop params ''name'', get_prop params ''arguments''))"

section \<open>The synchronous HTTP transport\<close>

datatype http_body =
    Rpc_body rpc_response
  | Json_body jsval
  | No_body

record http_reply =
  status :: nat
  hbody :: http_body

text \<open>
  What a handler leaves behind: the reply it sent, or the error it threw outside any
  \<^verbatim>\<open>try\<close> before replying (the promise of the \<^verbatim>\<open>async\<close> handler rejects; what the
  framework does with that is outside the repository).
\<close>

datatype handler_outcome =
    Replied http_reply
  | Threw js_error

text \<open>
  \<^verbatim>\<open>app.post('/')\<close> of \<^verbatim>\<open>index-http.ts\<close>, on the decoded body. \<^verbatim>\<open>res.json\<close> answers
  with status 200 unless \<^verbatim>\<open>res.status\<close> set another. The result is what the handler
  leaves behind and the requests sent to the backend. The log lines that interpolate
  a value of the request are part of the model, since the interpolation can throw:
  \<^verbatim>\<open>${message.method || '...'}\<close> before the version check and outside the
  \<^verbatim>\<open>try\<close>, \<^verbatim>\<open>${name}\<close> before \<^verbatim>\<open>executeTool\<close> and \<^verbatim>\<open>${message.method}\<close> before the
  method-not-found reply, both inside the \<^verbatim>\<open>try\<close>. (The log of a notification
  interpolates a method that is a string.)
\<close>

definition internal_error :: "jsval \<Rightarrow> js_error \<Rightarrow> handler_outcome" where
  "internal_error i err =
     Replied \<lparr>status = 500,
       hbody = Rpc_body \<lparr>rid = i,
                 outcome = Rpc_error (- 32603) ''Internal error'' (Some (emessage err))\<rparr>\<rparr>"

definition post_root ::
  "env \<Rightarrow> backend \<Rightarrow> jsval \<Rightarrow> handler_outcome \<times> fetch_request list" where
  "post_root e fetch message =
     (let jsonrpc = get_prop message ''jsonrpc'';
          i = get_prop message ''id'';
          m = get_prop message ''method''
      in
      case toString_js (if truthy m then m else JStr (''sin m'' @ e_acute @ ''todo'')) of
        None \<Rightarrow> (Threw cannot_convert, [])
      | Some logged \<Rightarrow>
      if \<not> truthy jsonrpc \<or> jsonrpc \<noteq> JStr ''2.0''
      then (Replied \<lparr>status = 400,
             hbody = Rpc_body \<lparr>rid = i,
                       outcome = Rpc_error (- 32600)
                         (''Invalid Request: jsonrpc must be '' @ dquote @ ''2.0'' @ dquote)
                         None\<rparr>\<rparr>, [])
      else if m = JStr ''initialize''
      then (Replied \<lparr>status = 200,
             hbody = Rpc_body \<lparr>rid = i, outcome = Result (initialize_result e)\<rparr>\<rparr>, [])
      else
        case method_startsWith m ''notifications/'' of
          Inl err \<Rightarrow> (internal_error i err, [])
        | Inr True \<Rightarrow> (Replied \<lparr>status = 202, hbody = No_body\<rparr>, [])
        | Inr False \<Rightarrow>
            if m = JStr ''tools/list''
            then (Replied \<lparr>status = 200,
                   hbody = Rpc_body \<lparr>rid = i, outcome = Result (Tools_result tools)\<rparr>\<rparr>, [])
            else if m = JStr ''tools/call''
            then (case destructure_params (get_prop message ''params'') of
                    Inl err \<Rightarrow> (internal_error i err, [])
                  | Inr (nm, args) \<Rightarrow>
                      (case toString_js nm of
                         None \<Rightarrow> (internal_error i cannot_convert, [])
                       | Some shown \<Rightarrow>
                           (case executeTool e fetch nm args of
                              (r, calls) \<Rightarrow>
                                (Replied \<lparr>status = 200,
                                   hbody = Rpc_body
                                     \<lparr>rid = i, outcome = Result (Call_result r)\<rparr>\<rparr>,
                                 calls))))
            else if m = JStr ''prompts/list''
            then (Replied \<lparr>status = 200,
                   hbody = Rpc_body \<lparr>rid = i, outcome = Result (Prompts_result [])\<rparr>\<rparr>, [])
            else if m = JStr ''resources/list''
            then (Replied \<lparr>status = 200,
                   hbody = Rpc_body \<lparr>rid = i, outcome = Result (Resources_result [])\<rparr>\<rparr>, [])
            else (case toString_js m of
                    None \<Rightarrow> (internal_error i cannot_convert, [])
                  | Some shown \<Rightarrow>
                      (Replied \<lparr>status = 200,
                         hbody = Rpc_body \<lparr>rid = i,
                                   outcome = Rpc_error (- 32601)
                                     (''Method not found: '' @ shown) None\<rparr>\<rparr>, [])))"

section \<open>The streaming transport\<close>

text \<open>
  What is written on an event-stream response: \<^verbatim>\<open>res.write(`event: <name>\n`)\<close> is
  \<open>Event_line name\<close>, \<^verbatim>\<open>res.write(`data: <d>\n\n`)\<close> is \<open>Data_line d\<close>, where the data
  is a plain text, the \<^verbatim>\<open>JSON.stringify\<close> text of a value, or that of a JSON-RPC
  response.
\<close>

datatype sse_data =
    Raw_data string
  | Json_data jsval
  | Rpc_data rpc_response

datatype chunk =
    Event_line string
  | Data_line sse_data

definition sse_event :: "string \<Rightarrow> sse_data \<Rightarrow> chunk list" where
  "sse_event ev d = [Event_line ev, Data_line d]"

text \<open>
  One \<^verbatim>\<open>GET /sse\<close> request: its response object \<^verbatim>\<open>res\<close> with what the handler's
  closure holds. \<open>sessionId\<close> is the closure's constant (also sent as the
  \<^verbatim>\<open>X-Session-Id\<close> header), \<open>written\<close> the chunks written so far, \<open>ended\<close> whether
  \<^verbatim>\<open>res.end()\<close> was called, \<open>heartbeat\<close> whether the interval timer is armed. A
  channel's handle is its index in \<open>channels\<close>: every request has a response object
  of its own.
\<close>

record channel =
  sessionId :: string
  written :: "chunk list"
  ended :: bool
  heartbeat :: bool

text \<open>An entry \<^verbatim>\<open>{ res, connected }\<close> of the \<^verbatim>\<open>sessions\<close> map.\<close>

record session =
  res :: nat
  connected :: nat

text \<open>
  \<^verbatim>\<open>const sessions = new Map<string, any>()\<close> as an association list with
  \<^verbatim>\<open>Map\<close>'s \<^verbatim>\<open>get\<close>, \<^verbatim>\<open>set\<close> and \<^verbatim>\<open>delete\<close> (\<open>map_of\<close>, \<open>AList.update\<close>,
  \<open>AList.delete\<close>), and the channels opened so far.
\<close>

record sse_state =
  sessions :: "(string \<times> session) list"
  channels :: "channel list"

definition init_state :: sse_state where
  "init_state = \<lparr>sessions = [], channels = []\<rparr>"

text \<open>
  \<^verbatim>\<open>res.write\<close> on channel \<open>h\<close>. Nothing reaches the client once the response has
  ended.
\<close>

definition res_write :: "nat \<Rightarrow> chunk list \<Rightarrow> sse_state \<Rightarrow> sse_state" where
  "res_write h cs st =
     (if h < length (channels st) \<and> \<not> ended (channels st ! h)
      then st\<lparr>channels := (channels st)
                [h := (channels st ! h)\<lparr>written := written (channels st ! h) @ cs\<rparr>]\<rparr>
      else st)"

text \<open>\<^verbatim>\<open>clearInterval(heartbeat)\<close> of channel \<open>h\<close>.\<close>

definition clearInterval :: "nat \<Rightarrow> sse_state \<Rightarrow> sse_state" where
  "clearInterval h st =
     (if h < length (channels st)
      then st\<lparr>channels := (channels st)[h := (channels st ! h)\<lparr>heartbeat := False\<rparr>]\<rparr>
      else st)"

text \<open>\<^verbatim>\<open>res.end()\<close> of channel \<open>h\<close>.\<close>

definition res_end :: "nat \<Rightarrow> sse_state \<Rightarrow> sse_state" where
  "res_end h st =
     (if h < length (channels st)
      then st\<lparr>channels := (channels st)[h := (channels st ! h)\<lparr>ended := True\<rparr>]\<rparr>
      else st)"

text \<open>
  \<^verbatim>\<open>app.get('/sse')\<close>. \<open>query_sid\<close> is \<^verbatim>\<open>req.query.sessionId\<close>, \<open>random_id\<close> what
  \<^verbatim>\<open>Math.random().toString(36).substring(7)\<close> gives, \<open>now\<close> is \<^verbatim>\<open>Date.now()\<close> and
  \<open>stamp\<close> is \<^verbatim>\<open>new Date().toISOString()\<close>. \<^verbatim>\<open>sessions.set\<close> replaces the entry of an
  identifier that is already registered. (\<^verbatim>\<open>res.writeHead\<close> refuses an identifier
  that is no valid header value, before anything is registered; the model registers
  such an identifier as well.)
\<close>

definition get_sse ::
  "env \<Rightarrow> string option \<Rightarrow> string \<Rightarrow> nat \<Rightarrow> string \<Rightarrow> sse_state \<Rightarrow> sse_state" where
  "get_sse e query_sid random_id now stamp st =
     (let sid = or_default query_sid random_id;
          h = length (channels st);
          ch = \<lparr>sessionId = sid,
                written =
                  sse_event ''endpoint'' (Raw_data (''/message?sessionId='' @ sid)) @
                  sse_event ''connected''
                    (Json_data (JObj [(''status'', JStr ''connected''),
                       (''server'', JStr (or_default (env_MCP_SERVER_NAME e) ''lapalma24-mcp'')),
                       (''sessionId'', JStr sid),
                       (''timestamp'', JStr stamp)])),
                ended = False,
                heartbeat = True\<rparr>
      in st\<lparr>sessions := AList.update sid \<lparr>res = h, connected = now\<rparr> (sessions st),
            channels := channels st @ [ch]\<rparr>)"

text \<open>
  One firing of the heartbeat interval of channel \<open>h\<close> (it fires only while armed):
  the ping is written, or, when the write throws, the \<^verbatim>\<open>catch\<close> clears the interval.
\<close>

definition heartbeat_tick :: "nat \<Rightarrow> bool \<Rightarrow> string \<Rightarrow> sse_state \<Rightarrow> sse_state" where
  "heartbeat_tick h write_throws stamp st =
     (if h < length (channels st) \<and> heartbeat (channels st ! h)
      then (if write_throws then clearInterval h st
            else res_write h
                   (sse_event ''ping'' (Json_data (JObj [(''timestamp'', JStr stamp)]))) st)
      else st)"

text \<open>
  The \<^verbatim>\<open>req.on('close')\<close> handler of channel \<open>h\<close>: \<^verbatim>\<open>clearInterval(heartbeat);
  sessions.delete(sessionId); res.end()\<close>.
\<close>

definition on_close :: "nat \<Rightarrow> sse_state \<Rightarrow> sse_state" where
  "on_close h st =
     (if h < length (channels st)
      then
        let st1 = clearInterval h st;
            st2 = st1\<lparr>sessions := AList.delete (sessionId (channels st ! h)) (sessions st1)\<rparr>
        in res_end h st2
      else st)"

text \<open>
  \<^verbatim>\<open>app.post('/message')\<close>. What the handler does besides answering the POST, in
  program order: a request awaited from the backend, or chunks written on a channel.
\<close>

datatype action =
    Fetch fetch_request
  | Write nat "chunk list"

fun perform :: "sse_state \<Rightarrow> action \<Rightarrow> sse_state" where
  "perform st (Fetch req) = st"
| "perform st (Write h cs) = res_write h cs st"

fun fetched :: "action list \<Rightarrow> fetch_request list" where
  "fetched [] = []"
| "fetched (Fetch req # as) = req # fetched as"
| "fetched (Write h cs # as) = fetched as"

definition accepted :: http_reply where
  "accepted = \<lparr>status = 202, hbody = Json_body (JObj [(''status'', JStr ''accepted'')])\<rparr>"

definition error_reply :: "nat \<Rightarrow> string \<Rightarrow> http_reply" where
  "error_reply code msg = \<lparr>status = code, hbody = Json_body (JObj [(''error'', JStr msg)])\<rparr>"

definition message_event :: "rpc_response \<Rightarrow> chunk list" where
  "message_event r = sse_event ''message'' (Rpc_data r)"

text \<open>
  The part inside \<^verbatim>\<open>try\<close>, for the session's channel \<open>h\<close>, with the outer \<^verbatim>\<open>catch\<close>
  (status 500). Every path ends with the statement that answers the POST
  (\<^verbatim>\<open>return res.status(400)\<close>, \<^verbatim>\<open>res.status(202)\<close> as the last statement of the \<^verbatim>\<open>try\<close>,
  \<^verbatim>\<open>res.status(500)\<close> in the \<^verbatim>\<open>catch\<close>): the result is the list of actions done before
  that, in order, and then the reply. The log line \<^verbatim>\<open>${message.method}\<close> after the
  version check can throw; the later interpolations of the method convert the same
  value again and give the same text \<open>shown\<close>.
\<close>

definition handle_message ::
  "env \<Rightarrow> backend \<Rightarrow> nat \<Rightarrow> jsval \<Rightarrow> action list \<times> http_reply" where
  "handle_message e fetch h message =
     (let jsonrpc = get_prop message ''jsonrpc'';
          i = get_prop message ''id'';
          m = get_prop message ''method''
      in
      if \<not> truthy jsonrpc \<or> jsonrpc \<noteq> JStr ''2.0''
      then ([], error_reply 400 ''Invalid JSON-RPC version'')
      else
      case toString_js m of
        None \<Rightarrow> ([], error_reply 500 (emessage cannot_convert))
      | Some shown \<Rightarrow>
      if m = JStr ''tools/list''
      then ([Write h (message_event \<lparr>rid = i, outcome = Result (Tools_result tools)\<rparr>)],
            accepted)
      else if m = JStr ''tools/call''
      then (case destructure_params (get_prop message ''params'') of
              Inl err \<Rightarrow> ([], error_reply 500 (emessage err))
            | Inr (nm, args) \<Rightarrow>
                (case tool_switch Index_ts e fetch nm args of
                   (Inr r, calls) \<Rightarrow>
                     (map Fetch calls @
                      [Write h
                         (message_event
                            \<lparr>rid = i, outcome = Result (Call_result (result_envelope r))\<rparr>)],
                      accepted)
                 | (Inl err, calls) \<Rightarrow>
                     (map Fetch calls @
                      [Write h
                         (message_event
                            \<lparr>rid = i, outcome = Rpc_error (- 32603) (emessage err) None\<rparr>)],
                      accepted)))
      else if m = JStr ''initialize''
      then ([Write h (message_event \<lparr>rid = i, outcome = Result (initialize_result e)\<rparr>)],
            accepted)
      else if m = JStr ''notifications/initialized''
      then ([], accepted)
      else
        case method_startsWith m ''notifications/'' of
          Inl err \<Rightarrow> ([], error_reply 500 (emessage err))
        | Inr True \<Rightarrow> ([], accepted)
        | Inr False \<Rightarrow>
            if truthy m
            then (if i \<noteq> JUndefined
                  then [Write h
                          (message_event
                             \<lparr>rid = i,
                              outcome = Rpc_error (- 32601)
                                (''Method not found: '' @ shown) None\<rparr>)]
                  else [],
                  accepted)
            else ([], accepted))"

text \<open>
  \<^verbatim>\<open>req.query.sessionId || req.headers['x-session-id']\<close>, then \<^verbatim>\<open>!sessionId\<close>: an empty
  identifier counts as none.
\<close>

definition request_sessionId :: "string option \<Rightarrow> string option \<Rightarrow> string option" where
  "request_sessionId query_sid header_sid =
     (case query_sid of
        Some s \<Rightarrow> if s \<noteq> [] then Some s
                  else (case header_sid of
                          Some t \<Rightarrow> if t \<noteq> [] then Some t else None
                        | None \<Rightarrow> None)
      | None \<Rightarrow> (case header_sid of
                    Some t \<Rightarrow> if t \<noteq> [] then Some t else None
                  | None \<Rightarrow> None))"

text \<open>
  What a run of the handler amounts to: the reply to the POST itself, the requests
  sent to the backend and the state after the actions.
\<close>

definition settle ::
  "sse_state \<Rightarrow> action list \<times> http_reply \<Rightarrow> http_reply \<times> fetch_request list \<times> sse_state" where
  "settle st r = (snd r, fetched (fst r), foldl perform st (fst r))"

text \<open>
  The whole handler: the session lookup, which answers 400 or 404 by itself, then
  the part above on the channel \<^verbatim>\<open>session.res\<close>.
\<close>

definition post_message ::
  "env \<Rightarrow> backend \<Rightarrow> string option \<Rightarrow> string option \<Rightarrow> jsval \<Rightarrow> sse_state
     \<Rightarrow> http_reply \<times> fetch_request list \<times> sse_state" where
  "post_message e fetch query_sid header_sid message st =
     (case request_sessionId query_sid header_sid of
        None \<Rightarrow> (error_reply 400 ''Missing sessionId'', [], st)
      | Some sid \<Rightarrow>
          (case map_of (sessions st) sid of
             None \<Rightarrow> (error_reply 404 ''Session not found'', [], st)
           | Some s \<Rightarrow> settle st (handle_message e fetch (res s) message)))"

text \<open>
  The events of the streaming server and a run of them from the empty registry. The
  handlers of \<^verbatim>\<open>GET /sse\<close>, of \<^verbatim>\<open>close\<close> and of the interval are synchronous, and
  \<^verbatim>\<open>POST /message\<close> reads the registry before its only \<^verbatim>\<open>await\<close>, so every read and
  every change of the registry is one step; a \<open>Post\<close> is taken as one step as well.
  A \<open>Close\<close> or \<open>Tick\<close> of a handle that was never opened has no handler to run.
\<close>

datatype event =
    Open "string option" string nat string
  | Close nat
  | Tick nat bool string
  | Post backend "string option" "string option" jsval

fun step :: "env \<Rightarrow> sse_state \<Rightarrow> event \<Rightarrow> sse_state" where
  "step e st (Open q r now stamp) = get_sse e q r now stamp st"
| "step e st (Close h) = on_close h st"
| "step e st (Tick h throws stamp) = heartbeat_tick h throws stamp st"
| "step e st (Post fetch q hdr message) = snd (snd (post_message e fetch q hdr message st))"

definition run :: "env \<Rightarrow> event list \<Rightarrow> sse_state" where
  "run e evs = foldl (step e) init_state evs"

section \<open>Properties: what is stated about the model\<close>

text \<open>
  The registry invariant: the keys of \<open>sessions\<close> are distinct, and what
  \<^verbatim>\<open>sessions.get\<close> finds for an identifier is a channel that exists, has not ended and
  was opened under that identifier.
\<close>

definition registry_ok :: "sse_state \<Rightarrow> bool" where
  "registry_ok st =
     (distinct (map fst (sessions st)) \<and>
      (\<forall>sid s. map_of (sessions st) sid = Some s \<longrightarrow>
         res s < length (channels st) \<and>
         \<not> ended (channels st ! res s) \<and>
         sessionId (channels st ! res s) = sid))"

text \<open>A JSON-RPC response that is an error object with the given code.\<close>

definition is_rpc_error :: "int \<Rightarrow> rpc_response \<Rightarrow> bool" where
  "is_rpc_error code r = (case outcome r of Rpc_error c m d \<Rightarrow> c = code | Result x \<Rightarrow> False)"

text \<open>Fixtures for the concrete instances: an empty environment, a backend that cannot be
  reached, one that answers 400, and a registry with one open session.\<close>

definition no_env :: env where
  "no_env = \<lparr>env_API_BASE_URL = None, env_API_KEY = None,
             env_MCP_SERVER_NAME = None, env_MCP_SERVER_VERSION = None\<rparr>"

definition unreachable_backend :: backend where
  "unreachable_backend = (\<lambda>req. Rejected (TypeError_js ''fetch failed''))"

definition rejecting_backend :: backend where
  "rejecting_backend = (\<lambda>req. Responded 400 ''Bad Request'' (Inr JNull))"

definition one_session :: sse_state where
  "one_session = get_sse no_env (Some ''s1'') ''r4nd0m'' 0 ''2024-06-15T00:00:00.000Z'' init_state"

text \<open>Two channels opened under the same client-supplied identifier.\<close>

definition same_id_twice :: "event list" where
  "same_id_twice = [Open (Some ''a'') ''r1'' 0 ''t0'', Open (Some ''a'') ''r2'' 1 ''t1'']"

text \<open>An HTTP reply whose body is a JSON-RPC error object with the given code.\<close>

definition reply_is_rpc_error :: "int \<Rightarrow> http_reply \<Rightarrow> bool" where
  "reply_is_rpc_error code r =
     (case hbody r of Rpc_body b \<Rightarrow> is_rpc_error code b | Json_body j \<Rightarrow> False | No_body \<Rightarrow> False)"

text \<open>What the synchronous handler leaves behind is a reply of that kind.\<close>

definition outcome_is_rpc_error :: "int \<Rightarrow> handler_outcome \<Rightarrow> bool" where
  "outcome_is_rpc_error code out =
     (case out of Replied r \<Rightarrow> reply_is_rpc_error code r | Threw err \<Rightarrow> False)"

text \<open>A decoded object that cannot be converted to a string.\<close>

definition unconvertible :: jsval where
  "unconvertible = JObj [(''toString'', JNum ''1'')]"


text \<open>A \<^verbatim>\<open>tools/list\<close> message without id and a \<^verbatim>\<open>tools/call\<close> request for a named tool.\<close>

definition list_without_id :: jsval where
  "list_without_id = JObj [(''jsonrpc'', JStr ''2.0''), (''method'', JStr ''tools/list'')]"

definition call_request :: "string \<Rightarrow> jsval" where
  "call_request nm =
     JObj [(''jsonrpc'', JStr ''2.0''), (''id'', JNum ''7''), (''method'', JStr ''tools/call''),
           (''params'', JObj [(''name'', JStr nm), (''arguments'', JObj [])])]"

text \<open>The request that \<^verbatim>\<open>listar_municipios\<close> sends under the empty environment.\<close>

definition municipios_request :: "entry_point \<Rightarrow> fetch_request" where
  "municipios_request f =
     \<lparr>url = API_BASE_URL f no_env @ ''/api/municipios'', searchParams = [], fmethod = GET,
      headers = [(''X-API-Key'', ''demo_key_12345''), (''Content-Type'', ''application/json'')],
      fbody = None\<rparr>"

section \<open>The registry invariant is preserved\<close>

lemma res_write_frame:
  "sessions (res_write h cs st) = sessions st"
  "length (channels (res_write h cs st)) = length (channels st)"
  "k < length (channels st) \<Longrightarrow> ended (channels (res_write h cs st) ! k) = ended (channels st ! k)"
  "k < length (channels st) \<Longrightarrow> sessionId (channels (res_write h cs st) ! k) = sessionId (channels st ! k)"
  "k < length (channels st) \<Longrightarrow> heartbeat (channels (res_write h cs st) ! k) = heartbeat (channels st ! k)"
  by (auto simp: res_write_def nth_list_update)

lemma clearInterval_frame:
  "sessions (clearInterval h st) = sessions st"
  "length (channels (clearInterval h st)) = length (channels st)"
  "k < length (channels st) \<Longrightarrow> ended (channels (clearInterval h st) ! k) = ended (channels st ! k)"
  "k < length (channels st) \<Longrightarrow> sessionId (channels (clearInterval h st) ! k) = sessionId (channels st ! k)"
  "k < length (channels st) \<Longrightarrow> written (channels (clearInterval h st) ! k) = written (channels st ! k)"
  by (auto simp: clearInterval_def nth_list_update)

lemma registry_ok_res_write: "registry_ok st \<Longrightarrow> registry_ok (res_write h cs st)"
  by (simp add: registry_ok_def res_write_frame)

lemma registry_ok_clearInterval: "registry_ok st \<Longrightarrow> registry_ok (clearInterval h st)"
  by (simp add: registry_ok_def clearInterval_frame)

lemma registry_ok_init: "registry_ok init_state"
  by (simp add: registry_ok_def init_state_def)

lemma registry_ok_get_sse: "registry_ok st \<Longrightarrow> registry_ok (get_sse e q r now stamp st)"
  unfolding registry_ok_def get_sse_def Let_def
  by (auto simp: update_conv' distinct_update nth_append less_Suc_eq
      simp del: map_of_eq_Some_iff)

lemma registry_ok_heartbeat_tick: "registry_ok st \<Longrightarrow> registry_ok (heartbeat_tick h t stamp st)"
  by (simp add: heartbeat_tick_def registry_ok_res_write registry_ok_clearInterval)

lemma registry_ok_on_close:
  assumes "registry_ok st"
  shows "registry_ok (on_close h st)"
proof (cases "h < length (channels st)")
  case False
  then show ?thesis using assms by (simp add: on_close_def)
next
  case True
  let ?k = "sessionId (channels st ! h)"
  have sess: "sessions (on_close h st) = AList.delete ?k (sessions st)"
    using True by (simp add: on_close_def Let_def res_end_def clearInterval_def)
  have len: "length (channels (on_close h st)) = length (channels st)"
    using True by (simp add: on_close_def Let_def res_end_def clearInterval_def)
  have other: "ended (channels (on_close h st) ! j) = ended (channels st ! j) \<and>
               sessionId (channels (on_close h st) ! j) = sessionId (channels st ! j)"
    if "j < length (channels st)" "j \<noteq> h" for j
    using True that by (simp add: on_close_def Let_def res_end_def clearInterval_def)
  have "res s < length (channels (on_close h st)) \<and>
        \<not> ended (channels (on_close h st) ! res s) \<and>
        sessionId (channels (on_close h st) ! res s) = sid"
    if look: "map_of (sessions (on_close h st)) sid = Some s" for sid s
  proof -
    from look have ne: "sid \<noteq> ?k" and old: "map_of (sessions st) sid = Some s"
      by (auto simp: sess delete_conv' split: if_splits)
    from assms old have ok: "res s < length (channels st)" "\<not> ended (channels st ! res s)"
      "sessionId (channels st ! res s) = sid"
      by (auto simp: registry_ok_def simp del: map_of_eq_Some_iff)
    with ne have "res s \<noteq> h" by auto
    with ok other [of "res s"] show ?thesis by (simp add: len)
  qed
  moreover have "distinct (map fst (sessions (on_close h st)))"
    using assms by (simp add: sess registry_ok_def distinct_delete)
  ultimately show ?thesis unfolding registry_ok_def by blast
qed

lemma handle_message_shape:
  obtains (silent) "handle_message e fetch h message = ([], accepted)"
  | (answered) calls r where
      "handle_message e fetch h message = (map Fetch calls @ [Write h (message_event r)], accepted)"
  | (refused) code msg where
      "handle_message e fetch h message = ([], error_reply code msg)"
      "code = 400 \<or> code = 500"
proof -
  let ?m = "get_prop message ''method''"
  let ?i = "get_prop message ''id''"
  show thesis
  proof (cases "get_prop message ''jsonrpc'' = JStr ''2.0''")
    case False
    then have "handle_message e fetch h message =
        ([], error_reply 400 ''Invalid JSON-RPC version'')"
      by (simp add: handle_message_def Let_def)
    then show thesis by (rule refused) simp
  next
    case version: True
    show thesis
    proof (cases "toString_js ?m")
      case None
      with version have "handle_message e fetch h message =
          ([], error_reply 500 (emessage cannot_convert))"
        by (simp add: handle_message_def Let_def)
      then show thesis by (rule refused) simp
    next
      case (Some shown)
      consider (list) "?m = JStr ''tools/list''" | (call) "?m = JStr ''tools/call''"
        | (init) "?m = JStr ''initialize''" | (inited) "?m = JStr ''notifications/initialized''"
        | (other) "?m \<noteq> JStr ''tools/list''" "?m \<noteq> JStr ''tools/call''"
            "?m \<noteq> JStr ''initialize''" "?m \<noteq> JStr ''notifications/initialized''"
        by blast
      then show thesis
      proof cases
        case list
        with version have "handle_message e fetch h message =
            (map Fetch [] @ [Write h (message_event
               \<lparr>rid = ?i, outcome = Result (Tools_result tools)\<rparr>)], accepted)"
          by (simp add: handle_message_def Let_def)
        then show thesis by (rule answered)
      next
        case call
        show thesis
        proof (cases "destructure_params (get_prop message ''params'')")
          case (Inl err)
          with version call have "handle_message e fetch h message =
              ([], error_reply 500 (emessage err))"
            by (simp add: handle_message_def Let_def)
          then show thesis by (rule refused) simp
        next
          case (Inr na)
          obtain nm args where na: "na = (nm, args)" by (cases na)
          obtain r calls where sw: "tool_switch Index_ts e fetch nm args = (r, calls)"
            by (cases "tool_switch Index_ts e fetch nm args")
          show thesis
          proof (cases r)
            case (Inl err)
            with version call Inr na sw show thesis
              by (intro answered [of calls]) (simp add: handle_message_def Let_def)
          next
            case (Inr v)
            with version call \<open>destructure_params (get_prop message ''params'') = Inr na\<close> na sw
            show thesis
              by (intro answered [of calls]) (simp add: handle_message_def Let_def)
          qed
        qed
      next
        case init
        with version have "handle_message e fetch h message =
            (map Fetch [] @ [Write h (message_event
               \<lparr>rid = ?i, outcome = Result (initialize_result e)\<rparr>)], accepted)"
          by (simp add: handle_message_def Let_def)
        then show thesis by (rule answered)
      next
        case inited
        with version show thesis
          by (intro silent) (simp add: handle_message_def Let_def)
      next
        case other
        show thesis
        proof (cases "method_startsWith ?m ''notifications/''")
          case (Inl err)
          with version other Some have "handle_message e fetch h message =
              ([], error_reply 500 (emessage err))"
            by (simp add: handle_message_def Let_def)
          then show thesis by (rule refused) simp
        next
          case (Inr b)
          show thesis
          proof (cases "\<not> b \<and> truthy ?m \<and> ?i \<noteq> JUndefined")
            case True
            with version other Inr Some have "handle_message e fetch h message =
                (map Fetch [] @ [Write h (message_event
                   \<lparr>rid = ?i, outcome = Rpc_error (- 32601)
                      (''Method not found: '' @ shown) None\<rparr>)], accepted)"
              by (simp add: handle_message_def Let_def)
            then show thesis by (rule answered)
          next
            case False
            with version other Inr Some show thesis
              by (intro silent) (cases b; auto simp add: handle_message_def Let_def)
          qed
        qed
      qed
    qed
  qed
qed

lemma perform_fetches: "foldl perform st (map Fetch calls) = st"
  by (induction calls) simp_all

lemma fetched_fetches: "fetched (map Fetch calls @ as) = calls @ fetched as"
  by (induction calls) simp_all

lemma settle_silent: "settle st ([], r) = (r, [], st)"
  by (simp add: settle_def)

lemma settle_answered:
  "settle st (map Fetch calls @ [Write h cs], r) = (r, calls, res_write h cs st)"
  by (simp add: settle_def perform_fetches fetched_fetches)

lemma registry_ok_post_message:
  assumes "registry_ok st"
  shows "registry_ok (snd (snd (post_message e fetch q hdr message st)))"
proof (cases "request_sessionId q hdr")
  case None
  with assms show ?thesis by (simp add: post_message_def)
next
  case (Some sid)
  show ?thesis
  proof (cases "map_of (sessions st) sid")
    case None
    with Some assms show ?thesis by (simp add: post_message_def)
  next
    case (Some s)
    have "registry_ok (snd (snd (settle st (handle_message e fetch (res s) message))))"
      by (rule handle_message_shape [of e fetch "res s" message])
         (simp_all add: assms registry_ok_res_write settle_silent settle_answered)
    with Some \<open>request_sessionId q hdr = Some sid\<close> show ?thesis
      by (simp add: post_message_def)
  qed
qed

lemma registry_ok_step: "registry_ok st \<Longrightarrow> registry_ok (step e st ev)"
  by (cases ev)
     (simp_all add: registry_ok_get_sse registry_ok_on_close registry_ok_heartbeat_tick
        registry_ok_post_message)

lemma registry_ok_foldl: "registry_ok st \<Longrightarrow> registry_ok (foldl (step e) st evs)"
  by (induction evs arbitrary: st) (simp_all add: registry_ok_step)

lemma registry_ok_run: "registry_ok (run e evs)"
  by (simp add: run_def registry_ok_foldl registry_ok_init)

section \<open>The catalog's names and the dispatch table\<close>

lemma tool_names:
  "map name tools =
     [''buscar_disponibilidad'', ''obtener_detalles_propiedad'', ''calcular_precio_estancia'',
      ''listar_propiedades'', ''listar_municipios'', ''listar_barrios'']"
  by (simp add: tools_def)

lemma not_in_catalog:
  "(\<forall>t \<in> set tools. nm \<noteq> JStr (name t)) =
     (nm \<noteq> JStr ''buscar_disponibilidad'' \<and> nm \<noteq> JStr ''obtener_detalles_propiedad'' \<and>
      nm \<noteq> JStr ''calcular_precio_estancia'' \<and> nm \<noteq> JStr ''listar_propiedades'' \<and>
      nm \<noteq> JStr ''listar_municipios'' \<and> nm \<noteq> JStr ''listar_barrios'')"
proof -
  have "(\<forall>t \<in> set tools. nm \<noteq> JStr (name t)) = (\<forall>n \<in> set (map name tools). nm \<noteq> JStr n)"
    by simp
  then show ?thesis unfolding tool_names by simp
qed

lemma tool_switch_unknown:
  "\<forall>t \<in> set tools. nm \<noteq> JStr (name t) \<Longrightarrow>
   tool_switch f e fetch nm args =
     (case toString_js nm of
        None \<Rightarrow> (Inl cannot_convert, [])
      | Some shown \<Rightarrow> (Inl (Error_js (''Herramienta desconocida: '' @ shown)), []))"
  unfolding not_in_catalog by (simp add: tool_switch_def)

section \<open>Facts about the handlers\<close>

lemma post_message_registered:
  "request_sessionId q hdr = Some sid \<Longrightarrow> map_of (sessions st) sid = Some s \<Longrightarrow>
   post_message e fetch q hdr message st = settle st (handle_message e fetch (res s) message)"
  by (simp add: post_message_def)

lemma not_notification [simp]:
  "startsWith ''tools/list'' ''notifications/'' = False"
  "startsWith ''tools/call'' ''notifications/'' = False"
  "startsWith ''initialize'' ''notifications/'' = False"
  by (simp_all add: startsWith_def)

lemma res_write_written:
  "h < length (channels st) \<Longrightarrow> \<not> ended (channels st ! h) \<Longrightarrow>
   written (channels (res_write h cs st) ! h) = written (channels st ! h) @ cs"
  by (simp add: res_write_def)

lemma registry_ok_lookup:
  "registry_ok st \<Longrightarrow> map_of (sessions st) sid = Some s \<Longrightarrow>
   res s < length (channels st) \<and> \<not> ended (channels st ! res s) \<and>
   sessionId (channels st ! res s) = sid"
  unfolding registry_ok_def by blast

lemma registry_ok_one_session: "registry_ok one_session"
  unfolding one_session_def by (rule registry_ok_get_sse [OF registry_ok_init])

lemma one_session_lookup:
  "map_of (sessions one_session) ''s1'' = Some \<lparr>res = 0, connected = 0\<rparr>"
  by (simp add: one_session_def get_sse_def init_state_def or_default_def Let_def)

lemma on_close_sessions:
  "h < length (channels st) \<Longrightarrow>
   sessions (on_close h st) = AList.delete (sessionId (channels st ! h)) (sessions st)"
  by (simp add: on_close_def Let_def res_end_def clearInterval_def)

lemma clearInterval_idem: "clearInterval h (clearInterval h st) = clearInterval h st"
  by (simp add: clearInterval_def)

lemma clearInterval_after_failed_tick:
  "clearInterval h (heartbeat_tick h True stamp st) = clearInterval h st"
  by (simp add: heartbeat_tick_def clearInterval_idem)

lemma on_close_idem: "on_close h (on_close h st) = on_close h st"
  by (simp add: on_close_def Let_def res_end_def clearInterval_def delete_idem)

lemma on_close_after_failed_tick:
  "on_close h (heartbeat_tick h True stamp st) = on_close h st"
  by (simp add: heartbeat_tick_def on_close_def Let_def res_end_def clearInterval_def)

lemma delete_absent: "map_of al k = None \<Longrightarrow> AList.delete k al = al"
  by (simp add: map_of_eq_None_iff)








lemma startsWith_notifications_distinct:
  "startsWith m ''notifications/'' \<Longrightarrow>
   m \<noteq> ''tools/list'' \<and> m \<noteq> ''tools/call'' \<and> m \<noteq> ''initialize'' \<and> m \<noteq> []"
  by (auto simp: startsWith_def)

lemma one_session_channel:
  "0 < length (channels one_session)" "\<not> ended (channels one_session ! 0)"
  "sessionId (channels one_session ! 0) = ''s1''"
  by (simp_all add: one_session_def get_sse_def init_state_def or_default_def Let_def)

lemma call_request_fields:
  "get_prop (call_request nm) ''jsonrpc'' = JStr ''2.0''"
  "get_prop (call_request nm) ''method'' = JStr ''tools/call''"
  "get_prop (call_request nm) ''id'' = JNum ''7''"
  "\<not> nullish (get_prop (call_request nm) ''params'')"
  "get_prop (get_prop (call_request nm) ''params'') ''name'' = JStr nm"
  "get_prop (get_prop (call_request nm) ''params'') ''arguments'' = JObj []"
  by (simp_all add: call_request_def nullish_def)

lemma unknown_tool_throws:
  "tool_switch f no_env fetch (JStr ''no_such_tool'') (JObj []) =
     (Inl (Error_js ''Herramienta desconocida: no_such_tool''), [])"
  by (simp add: tool_switch_def)

lemma backend_400_throws:
  "tool_switch f no_env rejecting_backend (JStr ''listar_municipios'') (JObj []) =
     (Inl (Error_js ''API Error: 400 Bad Request''), [municipios_request f])"
  by (simp add: tool_switch_def apiCall_def rejecting_backend_def Let_def digit_char_def
      API_KEY_def or_default_def no_env_def municipios_request_def)

lemma network_failure_throws:
  "tool_switch f no_env unreachable_backend (JStr ''listar_municipios'') (JObj []) =
     (Inl (TypeError_js ''fetch failed''), [municipios_request f])"
  by (simp add: tool_switch_def apiCall_def unreachable_backend_def Let_def
      API_KEY_def or_default_def no_env_def municipios_request_def)

section \<open>Claims\<close>

text \<open>
  C1 does not hold on the streaming transport. For every \<^verbatim>\<open>tools/call\<close> whose tool
  execution fails (the switch throws \<open>err\<close>: unknown tool, backend response that is
  not 2xx, network failure), the \<^verbatim>\<open>catch\<close> of \<^verbatim>\<open>POST /message\<close> writes a \<^verbatim>\<open>message\<close>
  event holding a JSON-RPC error object with code \<open>-32603\<close> and the failure's
  message, where C1 asks for a result whose envelope has \<^verbatim>\<open>isError: true\<close>. The
  synchronous transport answers the same request with that envelope, provided the
  tool name can be converted to a string for its log line. The instance below
  evaluates both at an unknown tool, a backend that answers 400 and a backend that
  cannot be reached.
\<close>

theorem C1_tool_failure:
  assumes "get_prop message ''jsonrpc'' = JStr ''2.0''"
    and "get_prop message ''method'' = JStr ''tools/call''"
    and "\<not> nullish (get_prop message ''params'')"
  shows "(request_sessionId q hdr = Some sid \<and> map_of (sessions st) sid = Some s \<and>
          tool_switch Index_ts e fetch (get_prop (get_prop message ''params'') ''name'')
            (get_prop (get_prop message ''params'') ''arguments'') = (Inl err, calls) \<longrightarrow>
            handle_message e fetch (res s) message =
              (map Fetch calls @
               [Write (res s)
                  (message_event \<lparr>rid = get_prop message ''id'',
                     outcome = Rpc_error (- 32603) (emessage err) None\<rparr>)], accepted) \<and>
            post_message e fetch q hdr message st =
              (accepted, calls,
               res_write (res s)
                 (message_event \<lparr>rid = get_prop message ''id'',
                    outcome = Rpc_error (- 32603) (emessage err) None\<rparr>) st)) \<and>
         (toString_js (get_prop (get_prop message ''params'') ''name'') \<noteq> None \<and>
          tool_switch Index_http_ts e fetch (get_prop (get_prop message ''params'') ''name'')
            (get_prop (get_prop message ''params'') ''arguments'') = (Inl err, calls) \<longrightarrow>
            post_root e fetch message =
              (Replied \<lparr>status = 200,
                 hbody = Rpc_body \<lparr>rid = get_prop message ''id'',
                           outcome = Result (Call_result (error_envelope err))\<rparr>\<rparr>, calls) \<and>
            isError (error_envelope err) = Some True)"
proof -
  have sse: "handle_message e fetch h message =
      (map Fetch calls @
       [Write h (message_event \<lparr>rid = get_prop message ''id'',
                   outcome = Rpc_error (- 32603) (emessage err) None\<rparr>)], accepted)"
    if "tool_switch Index_ts e fetch (get_prop (get_prop message ''params'') ''name'')
            (get_prop (get_prop message ''params'') ''arguments'') = (Inl err, calls)" for h
    using assms that by (simp add: handle_message_def destructure_params_def)
  have http: "post_root e fetch message =
              (Replied \<lparr>status = 200,
                 hbody = Rpc_body \<lparr>rid = get_prop message ''id'',
                           outcome = Result (Call_result (error_envelope err))\<rparr>\<rparr>, calls)"
    if "tool_switch Index_http_ts e fetch (get_prop (get_prop message ''params'') ''name'')
            (get_prop (get_prop message ''params'') ''arguments'') = (Inl err, calls)"
      and "toString_js (get_prop (get_prop message ''params'') ''name'') \<noteq> None"
    using assms that
    by (auto simp: post_root_def destructure_params_def method_startsWith_def executeTool_def)
  show ?thesis
    using sse http
    by (auto simp: post_message_registered settle_answered error_envelope_def)
qed

theorem C1_tool_failure_witness:
  "post_message no_env unreachable_backend (Some ''s1'') None (call_request ''no_such_tool'')
     one_session =
     (accepted, [],
      res_write 0
        (message_event \<lparr>rid = JNum ''7'',
           outcome = Rpc_error (- 32603) ''Herramienta desconocida: no_such_tool'' None\<rparr>)
        one_session) \<and>
   post_message no_env rejecting_backend (Some ''s1'') None (call_request ''listar_municipios'')
     one_session =
     (accepted, [municipios_request Index_ts],
      res_write 0
        (message_event \<lparr>rid = JNum ''7'',
           outcome = Rpc_error (- 32603) ''API Error: 400 Bad Request'' None\<rparr>)
        one_session) \<and>
   post_message no_env unreachable_backend (Some ''s1'') None (call_request ''listar_municipios'')
     one_session =
     (accepted, [municipios_request Index_ts],
      res_write 0
        (message_event \<lparr>rid = JNum ''7'',
           outcome = Rpc_error (- 32603) ''fetch failed'' None\<rparr>)
        one_session) \<and>
   written (channels (res_write 0
       (message_event \<lparr>rid = JNum ''7'',
          outcome = Rpc_error (- 32603) ''Herramienta desconocida: no_such_tool'' None\<rparr>)
       one_session) ! 0) =
     written (channels one_session ! 0) @
       [Event_line ''message'',
        Data_line (Rpc_data \<lparr>rid = JNum ''7'',
          outcome = Rpc_error (- 32603) ''Herramienta desconocida: no_such_tool'' None\<rparr>)] \<and>
   post_root no_env unreachable_backend (call_request ''no_such_tool'') =
     (Replied \<lparr>status = 200,
        hbody = Rpc_body \<lparr>rid = JNum ''7'',
          outcome = Result (Call_result
            (error_envelope (Error_js ''Herramienta desconocida: no_such_tool'')))\<rparr>\<rparr>, [])"
proof -
  have sid: "request_sessionId (Some ''s1'') None = Some ''s1''"
    by (simp add: request_sessionId_def)
  note inst = C1_tool_failure [where q = "Some ''s1''" and hdr = None and sid = "''s1''"
      and st = one_session and s = "\<lparr>res = 0, connected = 0\<rparr>" and e = no_env]
  show ?thesis
    using inst [where message = "call_request ''no_such_tool''" and fetch = unreachable_backend
        and err = "Error_js ''Herramienta desconocida: no_such_tool''" and calls = "[]"]
      inst [where message = "call_request ''listar_municipios''" and fetch = rejecting_backend
        and err = "Error_js ''API Error: 400 Bad Request''"
        and calls = "[municipios_request Index_ts]"]
      inst [where message = "call_request ''listar_municipios''" and fetch = unreachable_backend
        and err = "TypeError_js ''fetch failed''" and calls = "[municipios_request Index_ts]"]
      sid one_session_lookup one_session_channel
    by (simp add: call_request_fields unknown_tool_throws backend_400_throws
        network_failure_throws res_write_written message_event_def sse_event_def
        Error_js_def TypeError_js_def)
qed

text \<open>
  C2, as amended. For every message whose \<^verbatim>\<open>jsonrpc\<close> field is missing or not exactly
  \<^verbatim>\<open>"2.0"\<close>: the synchronous transport answers with status 400 and a JSON-RPC error
  with code \<open>-32600\<close>, sending nothing to the backend, whatever the method is, as
  long as the method can be converted to a string (it is falsy, a string, a number,
  a boolean, or an object or array without an own \<^verbatim>\<open>toString\<close> key inside); the
  streaming transport (for a registered session) rejects the injection with status
  400 and the plain body \<^verbatim>\<open>{error: "Invalid JSON-RPC version"}\<close>, whatever the method is,
  sends nothing to the backend and writes nothing on the channel. Both checks come
  before any method dispatch.
\<close>

theorem C2_invalid_envelope:
  assumes "get_prop message ''jsonrpc'' \<noteq> JStr ''2.0''"
  shows "((truthy (get_prop message ''method'') \<longrightarrow>
             toString_js (get_prop message ''method'') \<noteq> None) \<longrightarrow>
          post_root e fetch message =
            (Replied \<lparr>status = 400,
               hbody = Rpc_body \<lparr>rid = get_prop message ''id'',
                         outcome = Rpc_error (- 32600)
                           (''Invalid Request: jsonrpc must be '' @ dquote @ ''2.0'' @ dquote)
                           None\<rparr>\<rparr>, []) \<and>
          outcome_is_rpc_error (- 32600) (fst (post_root e fetch message))) \<and>
         (request_sessionId q hdr = Some sid \<and> map_of (sessions st) sid = Some s \<longrightarrow>
            post_message e fetch q hdr message st =
              (error_reply 400 ''Invalid JSON-RPC version'', [], st))"
proof -
  have http: "post_root e fetch message =
            (Replied \<lparr>status = 400,
               hbody = Rpc_body \<lparr>rid = get_prop message ''id'',
                         outcome = Rpc_error (- 32600)
                           (''Invalid Request: jsonrpc must be '' @ dquote @ ''2.0'' @ dquote)
                           None\<rparr>\<rparr>, [])"
    if "truthy (get_prop message ''method'') \<longrightarrow> toString_js (get_prop message ''method'') \<noteq> None"
    using assms that
    by (cases "truthy (get_prop message ''method'')") (auto simp: post_root_def Let_def)
  have sse: "handle_message e fetch h message =
      ([], error_reply 400 ''Invalid JSON-RPC version'')" for h
    using assms by (simp add: handle_message_def)
  show ?thesis
    using http sse
    by (auto simp: post_message_registered settle_silent outcome_is_rpc_error_def
        reply_is_rpc_error_def is_rpc_error_def)
qed

theorem C2_invalid_envelope_witness:
  "post_root no_env unreachable_backend
     (JObj [(''jsonrpc'', JStr ''1.0''), (''id'', JNum ''7''), (''method'', JStr ''tools/list'')]) =
           (Replied \<lparr>status = 400,
              hbody = Rpc_body \<lparr>rid = JNum ''7'',
                        outcome = Rpc_error (- 32600)
                          (''Invalid Request: jsonrpc must be '' @ dquote @ ''2.0'' @ dquote)
                          None\<rparr>\<rparr>, []) \<and>
   post_message no_env unreachable_backend (Some ''s1'') None
     (JObj [(''jsonrpc'', JStr ''1.0''), (''id'', JNum ''7''), (''method'', JStr ''tools/list'')])
     one_session = (error_reply 400 ''Invalid JSON-RPC version'', [], one_session)"
  using C2_invalid_envelope [of "JObj [(''jsonrpc'', JStr ''1.0''), (''id'', JNum ''7''),
        (''method'', JStr ''tools/list'')]" no_env unreachable_backend "Some ''s1''" None "''s1''"
      one_session "\<lparr>res = 0, connected = 0\<rparr>"]
    one_session_lookup
  by (simp add: request_sessionId_def)

text \<open>
  C2 as stated fails on the streaming transport: for a message without \<^verbatim>\<open>jsonrpc\<close>
  the reply is no JSON-RPC error with code \<open>-32600\<close>, and the channel is left as it
  was. (On the synchronous transport a method that cannot be converted to a string
  makes the first log line throw before the check: no \<open>-32600\<close> reply is sent.)
\<close>

theorem C2_counterexample:
  "get_prop (JObj [(''id'', JNum ''7''), (''method'', JStr ''tools/list'')]) ''jsonrpc'' \<noteq>
     JStr ''2.0'' \<and>
   \<not> reply_is_rpc_error (- 32600)
     (fst (post_message no_env unreachable_backend (Some ''s1'') None
        (JObj [(''id'', JNum ''7''), (''method'', JStr ''tools/list'')]) one_session)) \<and>
   snd (snd (post_message no_env unreachable_backend (Some ''s1'') None
        (JObj [(''id'', JNum ''7''), (''method'', JStr ''tools/list'')]) one_session)) =
     one_session \<and>
   post_root no_env unreachable_backend
     (JObj [(''id'', JNum ''7''), (''method'', unconvertible)]) = (Threw cannot_convert, [])"
  by (simp add: post_message_def request_sessionId_def one_session_lookup handle_message_def
      error_reply_def reply_is_rpc_error_def settle_silent post_root_def unconvertible_def)

text \<open>
  C3, as amended. For every message with \<^verbatim>\<open>jsonrpc: "2.0"\<close> whose method starts with
  \<^verbatim>\<open>notifications/\<close>, with or without an id, no JSON-RPC response frame is produced
  on either transport: the synchronous transport answers 202 with an empty body, the
  streaming transport writes nothing on the channel. On the streaming transport the
  same holds for a message without id whose method is a string other than
  \<^verbatim>\<open>tools/list\<close>, \<^verbatim>\<open>tools/call\<close> and \<^verbatim>\<open>initialize\<close>.
\<close>

theorem C3_notifications:
  assumes "get_prop message ''jsonrpc'' = JStr ''2.0''"
    and "get_prop message ''method'' = JStr m"
  shows "(startsWith m ''notifications/'' \<longrightarrow>
            post_root e fetch message = (Replied \<lparr>status = 202, hbody = No_body\<rparr>, [])) \<and>
         (request_sessionId q hdr = Some sid \<and> map_of (sessions st) sid = Some s \<and>
          (startsWith m ''notifications/'' \<or>
           get_prop message ''id'' = JUndefined \<and>
           m \<noteq> ''tools/list'' \<and> m \<noteq> ''tools/call'' \<and> m \<noteq> ''initialize'') \<longrightarrow>
            post_message e fetch q hdr message st = (accepted, [], st))"
proof -
  have http: "post_root e fetch message = (Replied \<lparr>status = 202, hbody = No_body\<rparr>, [])"
    if "startsWith m ''notifications/''"
    using assms that startsWith_notifications_distinct [OF that]
    by (simp add: post_root_def method_startsWith_def)
  have sse1: "handle_message e fetch h message = ([], accepted)"
    if "startsWith m ''notifications/''" for h
    using assms that startsWith_notifications_distinct [OF that]
    by (simp add: handle_message_def method_startsWith_def Let_def)
  have sse2: "handle_message e fetch h message = ([], accepted)"
    if "get_prop message ''id'' = JUndefined" "m \<noteq> ''tools/list''" "m \<noteq> ''tools/call''"
      "m \<noteq> ''initialize''" for h
    using assms that
    by (simp add: handle_message_def method_startsWith_def Let_def split: bool.splits)
  show ?thesis
    using http sse1 sse2 by (auto simp: post_message_registered settle_silent)
qed

theorem C3_notifications_witness:
  "post_root no_env unreachable_backend
     (JObj [(''jsonrpc'', JStr ''2.0''), (''method'', JStr ''notifications/cancelled'')]) =
     (Replied \<lparr>status = 202, hbody = No_body\<rparr>, []) \<and>
   post_message no_env unreachable_backend (Some ''s1'') None
     (JObj [(''jsonrpc'', JStr ''2.0''), (''method'', JStr ''notifications/cancelled'')])
     one_session = (accepted, [], one_session) \<and>
   post_message no_env unreachable_backend (Some ''s1'') None
     (JObj [(''jsonrpc'', JStr ''2.0''), (''method'', JStr ''no/such'')])
     one_session = (accepted, [], one_session)"
proof -
  have sid: "request_sessionId (Some ''s1'') None = Some ''s1''"
    by (simp add: request_sessionId_def)
  have n: "startsWith ''notifications/cancelled'' ''notifications/''"
    by (simp add: startsWith_def)
  show ?thesis
    using C3_notifications [of "JObj [(''jsonrpc'', JStr ''2.0''),
          (''method'', JStr ''notifications/cancelled'')]" "''notifications/cancelled''"
        no_env unreachable_backend "Some ''s1''" None "''s1''" one_session
        "\<lparr>res = 0, connected = 0\<rparr>"]
      C3_notifications [of "JObj [(''jsonrpc'', JStr ''2.0''), (''method'', JStr ''no/such'')]"
        "''no/such''" no_env unreachable_backend "Some ''s1''" None "''s1''" one_session
        "\<lparr>res = 0, connected = 0\<rparr>"]
      sid n one_session_lookup
    by simp
qed

text \<open>
  C3 as stated fails: a \<^verbatim>\<open>tools/list\<close> message without id is answered with a response
  frame on both transports, and the synchronous transport answers a message without
  id and with an unknown method with a \<open>-32601\<close> error frame.
\<close>

theorem C3_counterexample:
  "get_prop list_without_id ''id'' = JUndefined \<and>
   post_root no_env unreachable_backend list_without_id =
     (Replied \<lparr>status = 200,
        hbody = Rpc_body \<lparr>rid = JUndefined, outcome = Result (Tools_result tools)\<rparr>\<rparr>, []) \<and>
   written (channels (snd (snd (post_message no_env unreachable_backend (Some ''s1'') None
     list_without_id one_session))) ! 0) =
     written (channels one_session ! 0) @
       [Event_line ''message'',
        Data_line (Rpc_data \<lparr>rid = JUndefined, outcome = Result (Tools_result tools)\<rparr>)] \<and>
   get_prop (JObj [(''jsonrpc'', JStr ''2.0''), (''method'', JStr ''no/such'')]) ''id'' = JUndefined \<and>
   outcome_is_rpc_error (- 32601)
     (fst (post_root no_env unreachable_backend
        (JObj [(''jsonrpc'', JStr ''2.0''), (''method'', JStr ''no/such'')])))"
proof -
  have a: "post_message no_env unreachable_backend (Some ''s1'') None
     list_without_id one_session =
     (accepted, [],
      res_write 0 (message_event \<lparr>rid = JUndefined, outcome = Result (Tools_result tools)\<rparr>)
        one_session)"
    by (simp add: post_message_def request_sessionId_def one_session_lookup handle_message_def
        list_without_id_def settle_def)
  have b: "0 < length (channels one_session)" "\<not> ended (channels one_session ! 0)"
    by (simp_all add: one_session_def get_sse_def init_state_def or_default_def Let_def)
  have c: "post_root no_env unreachable_backend list_without_id =
     (Replied \<lparr>status = 200,
        hbody = Rpc_body \<lparr>rid = JUndefined, outcome = Result (Tools_result tools)\<rparr>\<rparr>, [])"
    by (simp add: post_root_def list_without_id_def method_startsWith_def)
  have d: "outcome_is_rpc_error (- 32601)
     (fst (post_root no_env unreachable_backend
        (JObj [(''jsonrpc'', JStr ''2.0''), (''method'', JStr ''no/such'')])))"
    by (simp add: post_root_def method_startsWith_def startsWith_def reply_is_rpc_error_def
        outcome_is_rpc_error_def is_rpc_error_def)
  show ?thesis
    using a b c d
    by (simp add: res_write_written message_event_def sse_event_def list_without_id_def)
qed

text \<open>
  C4. After every sequence of events of the streaming server (channels opened, also
  under an identifier that is already registered; channels closed, also twice;
  heartbeats; injected messages, which look the registry up), the registry invariant
  holds, and every single event preserves it: the identifiers of the registry are
  distinct, so an identifier maps to at most one channel, and what a lookup finds is a
  channel that has not ended and was opened under that identifier, never a stale
  handle. Right after a channel's close handler has run, looking its identifier up
  finds nothing.
\<close>

theorem C4_registry_invariant:
  "registry_ok (run e evs) \<and>
   (registry_ok st \<longrightarrow> registry_ok (step e st ev)) \<and>
   (map_of (sessions (run e evs)) sid = Some s \<longrightarrow>
      res s < length (channels (run e evs)) \<and>
      \<not> ended (channels (run e evs) ! res s) \<and>
      sessionId (channels (run e evs) ! res s) = sid) \<and>
   (h < length (channels st) \<longrightarrow>
      map_of (sessions (on_close h st)) (sessionId (channels st ! h)) = None)"
  using registry_ok_run [of e evs] registry_ok_lookup [of "run e evs" sid s]
  by (simp add: registry_ok_step on_close_sessions delete_conv')

theorem C4_registry_invariant_witness:
  "registry_ok (run no_env (same_id_twice @ [Close 0])) \<and>
   registry_ok (step no_env one_session (Open (Some ''s1'') ''r'' 5 ''t'')) \<and>
   res \<lparr>res = 1, connected = 1\<rparr> < length (channels (run no_env same_id_twice)) \<and>
   \<not> ended (channels (run no_env same_id_twice) ! res \<lparr>res = 1, connected = 1\<rparr>) \<and>
   sessionId (channels (run no_env same_id_twice) ! res \<lparr>res = 1, connected = 1\<rparr>) = ''a'' \<and>
   map_of (sessions (on_close 0 one_session)) ''s1'' = None"
proof -
  have a: "map_of (sessions (run no_env same_id_twice)) ''a'' = Some \<lparr>res = 1, connected = 1\<rparr>"
    by (simp add: run_def same_id_twice_def get_sse_def init_state_def or_default_def Let_def)
  have c: "0 < length (channels one_session)" "sessionId (channels one_session ! 0) = ''s1''"
    by (simp_all add: one_session_def get_sse_def init_state_def or_default_def Let_def)
  show ?thesis
    using C4_registry_invariant [of no_env "same_id_twice @ [Close 0]" one_session
        "Open (Some ''s1'') ''r'' 5 ''t''" "''a''" "\<lparr>res = 1, connected = 1\<rparr>" 0]
      C4_registry_invariant [of no_env same_id_twice one_session
        "Open (Some ''s1'') ''r'' 5 ''t''" "''a''" "\<lparr>res = 1, connected = 1\<rparr>" 0]
      a c registry_ok_one_session
    by simp
qed

text \<open>
  C5, as amended. For every tool name that is not in the dispatch table (the names of
  the catalog) and every argument object, \<^verbatim>\<open>executeTool\<close> (and the stdio handler, which
  has the same body) sends nothing to the backend, does not throw, and returns an
  envelope with \<^verbatim>\<open>isError: true\<close>. When the name is a string, or another value that
  converts to the text \<^verbatim>\<open><name>\<close>, the text of the envelope is the pretty-printed JSON
  object \<^verbatim>\<open>{success: false, error: "Herramienta desconocida: <name>", details: "Error:
  Herramienta desconocida: <name>"}\<close>; when the name cannot be converted to a string, it
  is the same object for the \<^verbatim>\<open>TypeError\<close> of the failed conversion.
\<close>

theorem C5_unknown_tool:
  assumes "\<forall>t \<in> set tools. nm \<noteq> JStr (name t)"
  shows "(\<forall>shown. toString_js nm = Some shown \<longrightarrow>
            executeTool e fetch nm args =
              (\<lparr>content = [\<lparr>ctype = ''text'',
                   ctext = Pretty (JObj
                     [(''success'', JBool False),
                      (''error'', JStr (''Herramienta desconocida: '' @ shown)),
                      (''details'', JStr (''Error: Herramienta desconocida: '' @ shown))])\<rparr>],
                isError = Some True\<rparr>, [])) \<and>
         (toString_js nm = None \<longrightarrow>
            executeTool e fetch nm args =
              (\<lparr>content = [\<lparr>ctype = ''text'',
                   ctext = Pretty (JObj
                     [(''success'', JBool False),
                      (''error'', JStr ''Cannot convert object to primitive value''),
                      (''details'',
                       JStr ''TypeError: Cannot convert object to primitive value'')])\<rparr>],
                isError = Some True\<rparr>, [])) \<and>
         toString_js (JStr s) = Some s \<and>
         isError (fst (executeTool e fetch nm args)) = Some True \<and>
         snd (executeTool e fetch nm args) = [] \<and>
         CallToolRequest_handler e fetch nm args = executeTool e fetch nm args"
proof (cases "toString_js nm")
  case None
  with tool_switch_unknown [OF assms] show ?thesis
    by (simp add: executeTool_def CallToolRequest_handler_def error_envelope_def
        cannot_convert_def TypeError_js_def error_toString_def)
next
  case (Some shown)
  with tool_switch_unknown [OF assms] show ?thesis
    by (simp add: executeTool_def CallToolRequest_handler_def error_envelope_def Error_js_def
        error_toString_def)
qed

theorem C5_unknown_tool_witness:
  "executeTool no_env unreachable_backend (JStr ''no_such_tool'') (JObj []) =
           (\<lparr>content = [\<lparr>ctype = ''text'',
                ctext = Pretty (JObj
                  [(''success'', JBool False),
                   (''error'', JStr ''Herramienta desconocida: no_such_tool''),
                   (''details'', JStr ''Error: Herramienta desconocida: no_such_tool'')])\<rparr>],
             isError = Some True\<rparr>, []) \<and>
   executeTool no_env unreachable_backend unconvertible (JObj []) =
           (\<lparr>content = [\<lparr>ctype = ''text'',
                ctext = Pretty (JObj
                  [(''success'', JBool False),
                   (''error'', JStr ''Cannot convert object to primitive value''),
                   (''details'',
                    JStr ''TypeError: Cannot convert object to primitive value'')])\<rparr>],
             isError = Some True\<rparr>, [])"
proof -
  have a: "\<forall>t \<in> set tools. JStr ''no_such_tool'' \<noteq> JStr (name t)"
    unfolding not_in_catalog by simp
  have b: "\<forall>t \<in> set tools. unconvertible \<noteq> JStr (name t)"
    unfolding not_in_catalog by (simp add: unconvertible_def)
  have c: "toString_js unconvertible = None"
    by (simp add: unconvertible_def)
  from C5_unknown_tool [OF a, of no_env unreachable_backend "JObj []"]
    C5_unknown_tool [OF b, of no_env unreachable_backend "JObj []"] c
  show ?thesis by simp
qed

text \<open>
  C5 as stated fails: the text of the envelope is not
  \<^verbatim>\<open>{success: false, error: "Unknown tool: <name>"}\<close>.
\<close>

theorem C5_counterexample:
  "fst (executeTool no_env unreachable_backend (JStr ''no_such_tool'') (JObj [])) \<noteq>
     \<lparr>content = [\<lparr>ctype = ''text'',
          ctext = Pretty (JObj
            [(''success'', JBool False),
             (''error'', JStr ''Unknown tool: no_such_tool'')])\<rparr>],
       isError = Some True\<rparr>"
  by (simp add: executeTool_def tool_switch_def error_envelope_def Error_js_def)




text \<open>
  C7. A side-channel POST with no session identifier (neither query parameter nor
  header; an empty one counts as none) is rejected with status 400; one whose
  identifier is not in the registry, because it was never opened or because its
  channel's close handler has run, is rejected with status 404. In both cases nothing
  is sent to the backend and the state, with every channel's written chunks, is
  unchanged.
\<close>

theorem C7_session_lookup:
  "(q = None \<and> hdr = None \<longrightarrow>
      post_message e fetch q hdr message st = (error_reply 400 ''Missing sessionId'', [], st)) \<and>
   (request_sessionId q hdr = None \<longrightarrow>
      post_message e fetch q hdr message st = (error_reply 400 ''Missing sessionId'', [], st)) \<and>
   (request_sessionId q hdr = Some sid \<and> map_of (sessions st) sid = None \<longrightarrow>
      post_message e fetch q hdr message st = (error_reply 404 ''Session not found'', [], st)) \<and>
   (h < length (channels st) \<and> request_sessionId q hdr = Some (sessionId (channels st ! h)) \<longrightarrow>
      post_message e fetch q hdr message (on_close h st) =
        (error_reply 404 ''Session not found'', [], on_close h st)) \<and>
   status (error_reply 400 ''Missing sessionId'') = 400 \<and>
   status (error_reply 404 ''Session not found'') = 404"
  by (auto simp: post_message_def request_sessionId_def on_close_sessions delete_conv'
      error_reply_def)

theorem C7_session_lookup_witness:
  "post_message no_env unreachable_backend None None
     (JObj [(''jsonrpc'', JStr ''2.0''), (''id'', JNum ''7''), (''method'', JStr ''tools/list'')])
     one_session = (error_reply 400 ''Missing sessionId'', [], one_session) \<and>
   post_message no_env unreachable_backend (Some ''other'') None
     (JObj [(''jsonrpc'', JStr ''2.0''), (''id'', JNum ''7''), (''method'', JStr ''tools/list'')])
     one_session = (error_reply 404 ''Session not found'', [], one_session) \<and>
   post_message no_env unreachable_backend None (Some ''s1'')
     (JObj [(''jsonrpc'', JStr ''2.0''), (''id'', JNum ''7''), (''method'', JStr ''tools/list'')])
     (on_close 0 one_session) =
       (error_reply 404 ''Session not found'', [], on_close 0 one_session)"
proof -
  have a: "map_of (sessions one_session) ''other'' = None"
    by (simp add: one_session_def get_sse_def init_state_def or_default_def Let_def)
  have b: "0 < length (channels one_session)" "sessionId (channels one_session ! 0) = ''s1''"
    by (simp_all add: one_session_def get_sse_def init_state_def or_default_def Let_def)
  show ?thesis
    using C7_session_lookup [of None None no_env unreachable_backend
        "JObj [(''jsonrpc'', JStr ''2.0''), (''id'', JNum ''7''), (''method'', JStr ''tools/list'')]"
        one_session "''other''" 0]
      C7_session_lookup [of "Some ''other''" None no_env unreachable_backend
        "JObj [(''jsonrpc'', JStr ''2.0''), (''id'', JNum ''7''), (''method'', JStr ''tools/list'')]"
        one_session "''other''" 0]
      C7_session_lookup [of None "Some ''s1''" no_env unreachable_backend
        "JObj [(''jsonrpc'', JStr ''2.0''), (''id'', JNum ''7''), (''method'', JStr ''tools/list'')]"
        one_session "''other''" 0]
      a b
    by (simp add: request_sessionId_def)
qed

text \<open>
  C8. Running a channel's close handler a second time changes nothing: the state after
  two closes is the state after one, the registry included; closing a channel whose
  identifier is not registered leaves the registry as it is. Clearing the heartbeat
  interval a second time, after a close or after a failed heartbeat write cleared it,
  changes nothing. None of these operations can throw: they are total functions of
  the state.
\<close>

theorem C8_duplicate_close:
  "on_close h (on_close h st) = on_close h st \<and>
   sessions (on_close h (on_close h st)) = sessions (on_close h st) \<and>
   (map_of (sessions st) (sessionId (channels st ! h)) = None \<longrightarrow>
      sessions (on_close h st) = sessions st) \<and>
   clearInterval h (clearInterval h st) = clearInterval h st \<and>
   clearInterval h (on_close h st) = on_close h st \<and>
   clearInterval h (heartbeat_tick h True stamp st) = clearInterval h st \<and>
   on_close h (heartbeat_tick h True stamp st) = on_close h st"
proof -
  have a: "map_of (sessions st) (sessionId (channels st ! h)) = None \<longrightarrow>
      sessions (on_close h st) = sessions st"
  proof (cases "h < length (channels st)")
    case True
    then show ?thesis by (simp add: on_close_sessions delete_absent)
  next
    case False
    then show ?thesis by (simp add: on_close_def)
  qed
  have twist: "c\<lparr>ended := True, heartbeat := False\<rparr> = c\<lparr>heartbeat := False, ended := True\<rparr>"
    for c :: channel
    by (cases c) simp
  have b: "clearInterval h (on_close h st) = on_close h st"
    by (simp add: on_close_def Let_def res_end_def clearInterval_def twist)
  show ?thesis
    using a b
    by (simp add: on_close_idem clearInterval_idem clearInterval_after_failed_tick
        on_close_after_failed_tick)
qed

theorem C8_duplicate_close_witness:
  "on_close 0 (on_close 0 one_session) = on_close 0 one_session \<and>
   sessions (on_close 0 (on_close 0 one_session)) = [] \<and>
   sessions (on_close 0 one_session) = [] \<and>
   heartbeat (channels (on_close 0 (heartbeat_tick 0 True ''t'' one_session)) ! 0) = False"
proof -
  have "sessions (on_close 0 one_session) = []"
    by (simp add: one_session_def get_sse_def init_state_def or_default_def Let_def on_close_def
        clearInterval_def res_end_def)
  moreover have "heartbeat (channels (on_close 0 one_session) ! 0) = False"
    by (simp add: one_session_def get_sse_def init_state_def or_default_def Let_def on_close_def
        clearInterval_def res_end_def)
  ultimately show ?thesis
    using C8_duplicate_close [of 0 one_session "''t''"] by simp
qed

text \<open>
  C9. For every \<^verbatim>\<open>tools/list\<close> request (\<^verbatim>\<open>jsonrpc: "2.0"\<close>; with or without an id) the
  result is the catalog itself, on both transports: as the body of the reply on the
  synchronous one, as a \<^verbatim>\<open>message\<close> event appended to the session's channel on the
  streaming one. Its tool names are therefore the catalog's names in the catalog's
  order, which are the six names below.
\<close>

theorem C9_tools_list:
  assumes "get_prop message ''jsonrpc'' = JStr ''2.0''"
    and "get_prop message ''method'' = JStr ''tools/list''"
  shows "post_root e fetch message =
           (Replied \<lparr>status = 200,
             hbody = Rpc_body \<lparr>rid = get_prop message ''id'',
                       outcome = Result (Tools_result tools)\<rparr>\<rparr>, []) \<and>
         (registry_ok st \<and> request_sessionId q hdr = Some sid \<and>
          map_of (sessions st) sid = Some s \<longrightarrow>
            fst (post_message e fetch q hdr message st) = accepted \<and>
            written (channels (snd (snd (post_message e fetch q hdr message st))) ! res s) =
              written (channels st ! res s) @
              [Event_line ''message'',
               Data_line (Rpc_data \<lparr>rid = get_prop message ''id'',
                            outcome = Result (Tools_result tools)\<rparr>)]) \<and>
         map name tools =
           [''buscar_disponibilidad'', ''obtener_detalles_propiedad'',
            ''calcular_precio_estancia'', ''listar_propiedades'', ''listar_municipios'',
            ''listar_barrios'']"
proof -
  have http: "post_root e fetch message =
           (Replied \<lparr>status = 200,
             hbody = Rpc_body \<lparr>rid = get_prop message ''id'',
                       outcome = Result (Tools_result tools)\<rparr>\<rparr>, [])"
    using assms by (simp add: post_root_def method_startsWith_def)
  have sse: "handle_message e fetch h message =
      (map Fetch [] @
       [Write h (message_event \<lparr>rid = get_prop message ''id'',
                   outcome = Result (Tools_result tools)\<rparr>)], accepted)" for h
    using assms by (simp add: handle_message_def)
  show ?thesis
    using http sse registry_ok_lookup [of st sid s] tool_names
    by (simp add: post_message_registered settle_answered res_write_written message_event_def
        sse_event_def del: list.map)
qed

theorem C9_tools_list_witness:
  "post_root no_env unreachable_backend
     (JObj [(''jsonrpc'', JStr ''2.0''), (''id'', JNum ''7''), (''method'', JStr ''tools/list'')]) =
     (Replied \<lparr>status = 200,
       hbody = Rpc_body \<lparr>rid = JNum ''7'', outcome = Result (Tools_result tools)\<rparr>\<rparr>, []) \<and>
   fst (post_message no_env unreachable_backend (Some ''s1'') None
     (JObj [(''jsonrpc'', JStr ''2.0''), (''id'', JNum ''7''), (''method'', JStr ''tools/list'')])
     one_session) = accepted \<and>
   written (channels (snd (snd (post_message no_env unreachable_backend (Some ''s1'') None
     (JObj [(''jsonrpc'', JStr ''2.0''), (''id'', JNum ''7''), (''method'', JStr ''tools/list'')])
     one_session))) ! 0) =
     written (channels one_session ! 0) @
       [Event_line ''message'',
        Data_line (Rpc_data \<lparr>rid = JNum ''7'', outcome = Result (Tools_result tools)\<rparr>)]"
  using C9_tools_list [of "JObj [(''jsonrpc'', JStr ''2.0''), (''id'', JNum ''7''),
      (''method'', JStr ''tools/list'')]" no_env unreachable_backend one_session "Some ''s1''" None
      "''s1''" "\<lparr>res = 0, connected = 0\<rparr>"]
    registry_ok_one_session one_session_lookup
  by (simp add: request_sessionId_def)

text \<open>
  C10. A message injected with a registered session identifier and \<^verbatim>\<open>jsonrpc: "2.0"\<close>
  but no \<^verbatim>\<open>method\<close> field, with or without an id, is acknowledged with 202 Accepted,
  sends nothing to the backend and leaves the state unchanged: nothing is written on
  any channel.
\<close>

theorem C10_method_absent:
  assumes "request_sessionId q hdr = Some sid"
    and "map_of (sessions st) sid = Some s"
    and "get_prop message ''jsonrpc'' = JStr ''2.0''"
    and "get_prop message ''method'' = JUndefined"
  shows "post_message e fetch q hdr message st = (accepted, [], st) \<and> status accepted = 202"
  using assms
  by (simp add: post_message_registered handle_message_def method_startsWith_def accepted_def
      settle_silent)

theorem C10_method_absent_witness:
  "post_message no_env unreachable_backend (Some ''s1'') None
     (JObj [(''jsonrpc'', JStr ''2.0''), (''id'', JNum ''7'')]) one_session =
     (accepted, [], one_session) \<and> status accepted = 202"
  using C10_method_absent [of "Some ''s1''" None "''s1''" one_session "\<lparr>res = 0, connected = 0\<rparr>"
      "JObj [(''jsonrpc'', JStr ''2.0''), (''id'', JNum ''7'')]" no_env unreachable_backend]
    one_session_lookup
  by (simp add: request_sessionId_def)

end
